theory Spec2Isabelle
  imports Main
begin

section \<open>JavaScript values, errors and strings\<close>

text \<open>
  The pages \<^verbatim>\<open>ConsolePage.tsx\<close> and \<^verbatim>\<open>Main.tsx\<close> read the JSON bodies of HTTP
  responses as values of type \<^verbatim>\<open>any\<close>. A value is one of the JavaScript primitives, an
  array or an object (its own properties as an association list; the first binding of a
  key is the one a property read sees). Numbers are only copied and tested for zero by
  the code, so an integer payload stands for them. Strings are lists of code units below
  256.
\<close>

datatype jsval =
    JUndefined
  | JNull
  | JBool bool
  | JNum int
  | JStr string
  | JArr "jsval list"
  | JObj "(string \<times> jsval) list"

text \<open>
  What a handler can throw: the \<^verbatim>\<open>Error\<close> it constructs itself (with its message), the
  \<^verbatim>\<open>TypeError\<close> of a property read on \<^verbatim>\<open>null\<close>/\<^verbatim>\<open>undefined\<close>, of a call of something
  that is not a function and of a \<^verbatim>\<open>for ... of\<close> over a value that is not iterable, the
  \<^verbatim>\<open>SyntaxError\<close> of \<^verbatim>\<open>result.json()\<close> on a body that is not JSON, and the rejection of
  \<^verbatim>\<open>fetch\<close> itself.
\<close>

datatype error = Error string | TypeError | SyntaxError | NetworkError

definition ebind :: "error + 'a \<Rightarrow> ('a \<Rightarrow> error + 'b) \<Rightarrow> error + 'b" where
  "ebind m f = (case m of Inl e \<Rightarrow> Inl e | Inr v \<Rightarrow> f v)"

text \<open>
  \<^verbatim>\<open>v.k\<close> for the property names this program reads (none of them is an index, \<^verbatim>\<open>length\<close>
  or a name found on a prototype): a \<^verbatim>\<open>TypeError\<close> on \<^verbatim>\<open>undefined\<close> and \<^verbatim>\<open>null\<close>, the own
  property of an object, \<^verbatim>\<open>undefined\<close> on everything else.
\<close>

fun get_prop :: "jsval \<Rightarrow> string \<Rightarrow> error + jsval" where
  "get_prop JUndefined k = Inl TypeError"
| "get_prop JNull k = Inl TypeError"
| "get_prop (JObj kvs) k = Inr (case map_of kvs k of Some v \<Rightarrow> v | None \<Rightarrow> JUndefined)"
| "get_prop v k = Inr JUndefined"

text \<open>
  \<^verbatim>\<open>for (let item of v)\<close>: arrays yield their elements, strings their characters, and
  nothing else that JSON can hold is iterable.
\<close>

fun iter_of :: "jsval \<Rightarrow> error + jsval list" where
  "iter_of (JArr xs) = Inr xs"
| "iter_of (JStr s) = Inr (map (\<lambda>c. JStr [c]) s)"
| "iter_of v = Inl TypeError"

text \<open>The truth value of \<^verbatim>\<open>v ? a : b\<close>.\<close>

fun truthy :: "jsval \<Rightarrow> bool" where
  "truthy JUndefined = False"
| "truthy JNull = False"
| "truthy (JBool b) = b"
| "truthy (JNum n) = (n \<noteq> 0)"
| "truthy (JStr s) = (s \<noteq> [])"
| "truthy v = True"

section \<open>Regular expressions of the program\<close>

text \<open>
  The three regular expressions of the program use literal characters, the classes
  \<^verbatim>\<open>\d\<close> and \<^verbatim>\<open>\s\<close>, sequencing, the greedy \<^verbatim>\<open>?\<close>, the exact repetition \<^verbatim>\<open>{n}\<close>, capture
  groups and \<^verbatim>\<open>$\<close> (end of input, no \<^verbatim>\<open>m\<close> flag). \<open>rx_match\<close> lists the ways a pattern
  matches at the start of a string, in the order the backtracking matcher of JavaScript
  tries them: each is the captures so far and the rest of the input.
\<close>

datatype cls = Lit char | Digit | Space

datatype rx =
    Atom cls
  | Seq rx rx
  | Opt rx
  | Times nat rx
  | Cap nat rx
  | Eos

definition is_digit :: "char \<Rightarrow> bool" where
  "is_digit c = (c \<in> set ''0123456789'')"

definition is_space :: "char \<Rightarrow> bool" where
  "is_space c = (c \<in> set [CHR 0x09, CHR 0x0A, CHR 0x0B, CHR 0x0C, CHR 0x0D, CHR 0x20, CHR 0xA0])"

fun cls_ok :: "cls \<Rightarrow> char \<Rightarrow> bool" where
  "cls_ok (Lit a) c = (c = a)"
| "cls_ok Digit c = is_digit c"
| "cls_ok Space c = is_space c"

type_synonym caps = "(nat \<times> string) list"

fun iterate :: "nat \<Rightarrow> ('a \<Rightarrow> 'a list) \<Rightarrow> 'a list \<Rightarrow> 'a list" where
  "iterate 0 f xs = xs"
| "iterate (Suc n) f xs = iterate n f (concat (map f xs))"

fun rx_match :: "rx \<Rightarrow> caps \<times> string \<Rightarrow> (caps \<times> string) list" where
  "rx_match (Atom a) (c, s) =
     (case s of [] \<Rightarrow> [] | x # xs \<Rightarrow> if cls_ok a x then [(c, xs)] else [])"
| "rx_match (Seq p q) cs = concat (map (rx_match q) (rx_match p cs))"
| "rx_match (Opt p) cs = rx_match p cs @ [cs]"
| "rx_match (Times n p) cs = iterate n (rx_match p) [cs]"
| "rx_match (Cap i p) (c, s) =
     map (\<lambda>(c', s'). ((i, take (length s - length s') s) # c', s')) (rx_match p (c, s))"
| "rx_match Eos (c, s) = (if s = [] then [(c, s)] else [])"

text \<open>
  \<^verbatim>\<open>String.prototype.replace\<close> with a regular expression without the \<^verbatim>\<open>g\<close> flag: the
  leftmost position where the pattern matches, there the first way it matches, and the
  matched text replaced by the template, where \<^verbatim>\<open>$n\<close> stands for the text of group n.
  The string is returned as it is when the pattern matches nowhere.
\<close>

fun rx_search :: "rx \<Rightarrow> string \<Rightarrow> string \<Rightarrow> (string \<times> caps \<times> string) option" where
  "rx_search r pre s =
     (case rx_match r ([], s) of
        (c, rest) # _ \<Rightarrow> Some (pre, c, rest)
      | [] \<Rightarrow> (case s of [] \<Rightarrow> None | x # xs \<Rightarrow> rx_search r (pre @ [x]) xs))"

datatype piece = Txt string | Grp nat

fun expand :: "piece list \<Rightarrow> caps \<Rightarrow> string" where
  "expand [] c = []"
| "expand (Txt t # ps) c = t @ expand ps c"
| "expand (Grp i # ps) c = (case map_of c i of Some g \<Rightarrow> g | None \<Rightarrow> []) @ expand ps c"

definition js_replace :: "rx \<Rightarrow> piece list \<Rightarrow> string \<Rightarrow> string" where
  "js_replace r tpl s =
     (case rx_search r [] s of
        None \<Rightarrow> s
      | Some (pre, c, rest) \<Rightarrow> pre @ expand tpl c @ rest)"

section \<open>formatPhoneNumber\<close>

text \<open>
  \<^verbatim>\<open>const regex = /(?:\+?55)?(\d{9})$/; return phone.replace(regex, '$1');\<close>
  (the same function in both pages).
\<close>

definition phone_regex :: rx where
  "phone_regex =
     Seq (Opt (Seq (Opt (Atom (Lit CHR ''+''))) (Seq (Atom (Lit CHR ''5'')) (Atom (Lit CHR ''5'')))))
         (Seq (Cap 1 (Times 9 (Atom Digit))) Eos)"

definition formatPhoneNumber :: "string \<Rightarrow> string" where
  "formatPhoneNumber phone = js_replace phone_regex [Grp 1] phone"

section \<open>HTTP requests and responses\<close>

text \<open>
  A handler calls \<^verbatim>\<open>fetch(url, {method, headers, body})\<close> and reads \<^verbatim>\<open>ok\<close>, \<^verbatim>\<open>status\<close>,
  \<^verbatim>\<open>statusText\<close> and \<^verbatim>\<open>json()\<close> of the result. The two header objects are literals that
  no argument reaches; they are left out of the request. The body of a request is the
  value handed to \<^verbatim>\<open>JSON.stringify\<close>; the body of a response is the value \<^verbatim>\<open>json()\<close>
  resolves to, or \<open>None\<close> when the text is not JSON and \<^verbatim>\<open>json()\<close> rejects.
\<close>

datatype http_method = GET | POST

record request =
  http_method :: http_method
  url :: string
  body :: "jsval option"

record response =
  ok :: bool
  status :: nat
  statusText :: string
  json :: "jsval option"

text \<open>
  What a handler reads from outside: \<^verbatim>\<open>fetch\<close>, which answers a request with a response or
  rejects, and the clock, as \<^verbatim>\<open>new Date().getFullYear()\<close> and \<^verbatim>\<open>new Date().getMonth()\<close>
  (January is 0).
\<close>

record env =
  fetch :: "request \<Rightarrow> error + response"
  getFullYear :: int
  getMonth :: int

text \<open>A number inside a template literal: its decimal digits.\<close>

fun show_nat :: "nat \<Rightarrow> string" where
  "show_nat n =
     (if n < 10 then [char_of (48 + n)] else show_nat (n div 10) @ [char_of (48 + n mod 10)])"

declare show_nat.simps [simp del]

definition show_int :: "int \<Rightarrow> string" where
  "show_int i = (if i < 0 then CHR ''-'' # show_nat (nat (- i)) else show_nat (nat i))"

text \<open>\<^verbatim>\<open>await result.json()\<close>.\<close>

definition result_json :: "response \<Rightarrow> error + jsval" where
  "result_json result = (case json result of None \<Rightarrow> Inl SyntaxError | Some j \<Rightarrow> Inr j)"

section \<open>The tool handlers\<close>

text \<open>
  Each handler is the second argument of a \<^verbatim>\<open>client.addTool\<close> call; both pages register
  the same six. A handler returns the requests it has issued, in order, and either the
  error it throws or the value it resolves to.
\<close>

subsection \<open>generate\_token\<close>

definition otp_message :: "string \<Rightarrow> string" where
  "otp_message token =
     ''Seu c'' @ [CHR 0xF3] @ ''digo de verifica'' @ [CHR 0xE7, CHR 0xE3] @
     ''o para se autenticar na Sindy '' @ [CHR 0xE9] @ '' '' @ token @ ''. N'' @ [CHR 0xE3] @
     ''o compartilhe-o com ningu'' @ [CHR 0xE9] @ ''m.''"

definition generate_token :: "env \<Rightarrow> string \<Rightarrow> string \<Rightarrow> request list \<times> (error + jsval)" where
  "generate_token e phone token =
     (let url = ''https://api.z-api.io/instances/3CEEA0A6BCD2D0E49FB9D6E96DCD545E/token/ECF5B6F24C278CF3BFB55D3C/send-button-otp'';
          body = JObj [(''phone'', JStr phone), (''message'', JStr (otp_message token)),
                       (''code'', JStr token)];
          req = \<lparr>http_method = POST, url = url, body = Some body\<rparr>
      in case fetch e req of
           Inl err \<Rightarrow> ([req], Inl err)
         | Inr result \<Rightarrow>
             ([req],
              if \<not> ok result
              then Inl (Error (''Erro ao enviar OTP: '' @ show_nat (status result) @ '' '' @
                               statusText result))
              else ebind (result_json result) (\<lambda>json. Inr (JStr ''''))))"

subsection \<open>get\_user\_data\<close>

definition request_error :: "response \<Rightarrow> error" where
  "request_error result =
     Error (''Erro na requisi'' @ [CHR 0xE7, CHR 0xE3] @ ''o: '' @ show_nat (status result) @
            '' '' @ statusText result)"

text \<open>The object literal \<^verbatim>\<open>cond\<close> of the loop body.\<close>

definition cond :: "string \<Rightarrow> jsval \<Rightarrow> error + jsval" where
  "cond telformatado item =
     ebind (get_prop item ''st_fantasia_cond'') (\<lambda>nome_condominio.
     ebind (get_prop item ''cpf_proprietario'') (\<lambda>cpf_proprietario.
     ebind (get_prop item ''email_proprietario'') (\<lambda>email_proprietario.
     ebind (get_prop item ''st_unidade_uni'') (\<lambda>unidade_apartamento.
     ebind (get_prop item ''id_unidade_uni'') (\<lambda>id_unidade.
     ebind (get_prop item ''id_condominio_cond'') (\<lambda>id_condominio.
       Inr (JObj [(''nome_condominio'', nome_condominio),
                  (''cpf_proprietario'', cpf_proprietario),
                  (''email_proprietario'', email_proprietario),
                  (''unidade_apartamento'', unidade_apartamento),
                  (''id_unidade'', id_unidade),
                  (''id_condominio'', id_condominio),
                  (''telefone'', JStr telformatado)])))))))"

text \<open>
  \<^verbatim>\<open>for (let item of json) { ...; arrconds.push(cond); }\<close> In \<^verbatim>\<open>ConsolePage\<close> the handler
  also stores the finished array under the key \<^verbatim>\<open>phone\<close> of \<^verbatim>\<open>userData\<close> before it returns;
  the requests and the returned value are the same in both pages.
\<close>

fun arrconds :: "string \<Rightarrow> jsval list \<Rightarrow> jsval list \<Rightarrow> error + jsval list" where
  "arrconds telformatado [] acc = Inr acc"
| "arrconds telformatado (item # rest) acc =
     (case cond telformatado item of
        Inl err \<Rightarrow> Inl err
      | Inr c \<Rightarrow> arrconds telformatado rest (acc @ [c]))"

definition get_user_data :: "env \<Rightarrow> string \<Rightarrow> request list \<times> (error + jsval)" where
  "get_user_data e phone =
     (let telformatado = formatPhoneNumber phone;
          url = ''https://api.superlogica.net/v2/condor/unidades/index?'' @
                ''idCondominio=-1&'' @
                ''exibirGruposDasUnidades=0&'' @
                ''itensPorPagina=50&'' @
                ''pagina=1&'' @
                ''exibirDadosDosContatos=1&'' @
                ''pesquisa='' @ telformatado;
          req = \<lparr>http_method = GET, url = url, body = None\<rparr>
      in case fetch e req of
           Inl err \<Rightarrow> ([req], Inl err)
         | Inr result \<Rightarrow>
             ([req],
              if \<not> ok result then Inl (request_error result)
              else ebind (result_json result) (\<lambda>json.
                   ebind (iter_of json) (\<lambda>rows.
                   ebind (arrconds telformatado rows []) (\<lambda>arr.
                     Inr (JObj [(''data'', JArr arr)]))))))"

subsection \<open>get\_payment\_link\<close>

text \<open>
  \<^verbatim>\<open>new Date(y, m, 5)\<close> and \<^verbatim>\<open>toLocaleDateString('en-US')\<close>. The constructor reads a year
  from 0 to 99 as 1900 + y and carries a month index outside 0..11 into the year; a day
  of the month from 1 to 28 (here always 5) stays as it is. The month index of a date
  counts from 0. The en-US rendering is month/day/year without padding, for the years
  from 1 on.
\<close>

record date =
  year :: int
  month :: int
  day :: int

definition new_Date :: "int \<Rightarrow> int \<Rightarrow> int \<Rightarrow> date" where
  "new_Date y m dt =
     (let yr = (if 0 \<le> y \<and> y \<le> 99 then 1900 + y else y)
      in \<lparr>year = yr + m div 12, month = m mod 12, day = dt\<rparr>)"

definition toLocaleDateString :: "date \<Rightarrow> string" where
  "toLocaleDateString d =
     show_int (month d + 1) @ ''/'' @ show_int (day d) @ ''/'' @ show_int (year d)"

text \<open>
  \<^verbatim>\<open>.replace(/\s\d{2}:\d{2}:\d{2}/, '').replace(/(\d{2})\/(\d{2})\/(\d{4})/, '$2/$1/$3')\<close>
  on a value: a \<^verbatim>\<open>TypeError\<close> unless the value is a string.
\<close>

definition time_regex :: rx where
  "time_regex =
     Seq (Atom Space) (Seq (Times 2 (Atom Digit)) (Seq (Atom (Lit CHR '':''))
       (Seq (Times 2 (Atom Digit)) (Seq (Atom (Lit CHR '':'')) (Times 2 (Atom Digit))))))"

definition date_regex :: rx where
  "date_regex =
     Seq (Cap 1 (Times 2 (Atom Digit))) (Seq (Atom (Lit CHR ''/''))
       (Seq (Cap 2 (Times 2 (Atom Digit))) (Seq (Atom (Lit CHR ''/''))
         (Cap 3 (Times 4 (Atom Digit))))))"

definition date_text :: "string \<Rightarrow> string" where
  "date_text s =
     js_replace date_regex [Grp 2, Txt ''/'', Grp 1, Txt ''/'', Grp 3] (js_replace time_regex [] s)"

definition replace_date :: "jsval \<Rightarrow> error + jsval" where
  "replace_date v = (case v of JStr s \<Rightarrow> Inr (JStr (date_text s)) | _ \<Rightarrow> Inl TypeError)"

text \<open>\<^verbatim>\<open>item.json.k\<close>\<close>

definition item_json :: "jsval \<Rightarrow> string \<Rightarrow> error + jsval" where
  "item_json item k = ebind (get_prop item ''json'') (\<lambda>j. get_prop j k)"

text \<open>
  The body of the loop: \<open>None\<close> when \<^verbatim>\<open>item.json.status\<close> is \<^verbatim>\<open>undefined\<close> and nothing is
  pushed, the object \<^verbatim>\<open>cobranca\<close> otherwise, its properties in the order they are assigned.
\<close>

definition cobranca :: "jsval \<Rightarrow> error + jsval option" where
  "cobranca item =
     ebind (item_json item ''status'') (\<lambda>st.
       if st \<noteq> JUndefined then
         ebind (ebind (item_json item ''dt_geracao_recb'') replace_date) (\<lambda>data_boleto.
         ebind (ebind (item_json item ''dt_vencimento_recb'') replace_date) (\<lambda>vencimento.
         ebind (item_json item ''vl_emitido_recb'') (\<lambda>valor.
         ebind (item_json item ''nm_txjuros_cond'') (\<lambda>juros.
         ebind (item_json item ''nm_txmulta_cond'') (\<lambda>multa.
         ebind (item_json item ''fl_status_recb'') (\<lambda>fl_status.
         ebind (item_json item ''vl_total_recb'') (\<lambda>total.
         ebind (item_json item ''st_pixqrcode_recb'') (\<lambda>pix.
         ebind (item_json item ''link_segundavia'') (\<lambda>link.
           Inr (Some (JObj (
             [(''data_boleto'', data_boleto), (''vencimento'', vencimento), (''valor'', valor)] @
             (if juros \<noteq> JStr '''' then [(''juros'', juros)] else []) @
             (if multa \<noteq> JStr '''' then [(''multa'', multa)] else []) @
             (if fl_status \<noteq> JStr ''''
              then [(''status'', JStr (if fl_status = JStr ''3'' then ''Pago'' else ''Pendente''))]
              else []) @
             [(''total'', total), (''pix'', pix), (''link'', link)]))))))))))))
       else Inr None)"

fun arrCobrancas :: "jsval list \<Rightarrow> jsval list \<Rightarrow> error + jsval list" where
  "arrCobrancas [] acc = Inr acc"
| "arrCobrancas (item # rest) acc =
     (case cobranca item of
        Inl err \<Rightarrow> Inl err
      | Inr None \<Rightarrow> arrCobrancas rest acc
      | Inr (Some c) \<Rightarrow> arrCobrancas rest (acc @ [c]))"

definition dtInicio :: "env \<Rightarrow> string" where
  "dtInicio e = toLocaleDateString (new_Date (getFullYear e) (getMonth e - 2) 5)"

definition dtFim :: "env \<Rightarrow> string" where
  "dtFim e = toLocaleDateString (new_Date (getFullYear e) (getMonth e + 1) 5)"

definition get_payment_link ::
    "env \<Rightarrow> string \<Rightarrow> string \<Rightarrow> string \<Rightarrow> request list \<times> (error + jsval)" where
  "get_payment_link e phone id_condominio id_unidade =
     (let telformatado = formatPhoneNumber phone;
          url = ''https://api.superlogica.net/v2/condor/cobranca/index?'' @
                ''status=validos&'' @
                ''apenasColunasPrincipais=1&'' @
                ''exibirPgtoComDiferenca=1&'' @
                ''comContatosDaUnidade=1&'' @
                ''idCondominio='' @ id_condominio @ ''&'' @
                ''dtInicio='' @ dtInicio e @ ''&'' @
                ''dtFim='' @ dtFim e @ ''&'' @
                ''UNIDADES[0]='' @ id_unidade;
          req = \<lparr>http_method = GET, url = url, body = None\<rparr>
      in case fetch e req of
           Inl err \<Rightarrow> ([req], Inl err)
         | Inr result \<Rightarrow>
             ([req],
              if \<not> ok result then Inl (request_error result)
              else ebind (result_json result) (\<lambda>json.
                   ebind (iter_of json) (\<lambda>rows.
                   ebind (arrCobrancas rows []) (\<lambda>arr.
                     Inr (JObj [(''data'', JArr arr)]))))))"

subsection \<open>get\_contacts\<close>

definition contato :: "jsval \<Rightarrow> error + jsval" where
  "contato item =
     ebind (get_prop item ''st_nome_con'') (\<lambda>nome.
     ebind (get_prop item ''st_nometiporesp_tres'') (\<lambda>tipo.
     ebind (get_prop item ''st_telefone_con'') (\<lambda>st_telefone_con.
     ebind (get_prop item ''st_fax_con'') (\<lambda>st_fax_con.
     ebind (get_prop item ''st_cpf_con'') (\<lambda>cpf.
       Inr (JObj [(''nome'', nome),
                  (''tipo'', tipo),
                  (''telefone'', if truthy st_telefone_con then st_telefone_con
                                 else if truthy st_fax_con then st_fax_con else JStr ''''),
                  (''cpf'', cpf)]))))))"

fun arrContatos :: "jsval list \<Rightarrow> jsval list \<Rightarrow> error + jsval list" where
  "arrContatos [] acc = Inr acc"
| "arrContatos (item # rest) acc =
     (case contato item of
        Inl err \<Rightarrow> Inl err
      | Inr c \<Rightarrow> arrContatos rest (acc @ [c]))"

definition get_contacts :: "env \<Rightarrow> string \<Rightarrow> string \<Rightarrow> request list \<times> (error + jsval)" where
  "get_contacts e phone id_condominio =
     (let telformatado = formatPhoneNumber phone;
          url = ''https://api.superlogica.net/v2/condor/unidades/index?'' @
                ''idCondominio='' @ id_condominio @ ''&'' @
                ''exibirGruposDasUnidades=0&'' @
                ''itensPorPagina=50&'' @
                ''pagina=1&'' @
                ''exibirDadosDosContatos=1&'' @
                ''pesquisa='' @ telformatado;
          req = \<lparr>http_method = GET, url = url, body = None\<rparr>
      in case fetch e req of
           Inl err \<Rightarrow> ([req], Inl err)
         | Inr result \<Rightarrow>
             ([req],
              if \<not> ok result then Inl (request_error result)
              else ebind (result_json result) (\<lambda>json.
                   ebind (get_prop json ''contatos'') (\<lambda>contatos.
                   ebind (iter_of contatos) (\<lambda>rows.
                   ebind (arrContatos rows []) (\<lambda>arr.
                     Inr (JObj [(''data'', JArr arr)])))))))"

subsection \<open>get\_llmbuilder and requestAssistance\<close>

text \<open>Both handlers are \<^verbatim>\<open>async () => { return "" }\<close>.\<close>

definition get_llmbuilder :: "env \<Rightarrow> request list \<times> (error + jsval)" where
  "get_llmbuilder e = ([], Inr (JStr ''''))"

definition requestAssistance :: "env \<Rightarrow> request list \<times> (error + jsval)" where
  "requestAssistance e = ([], Inr (JStr ''''))"

subsection \<open>The registered tools\<close>

text \<open>
  A call of a registered tool with arguments of its declared schema (every parameter a
  string, all of them required), dispatched to the handler registered under that name.
\<close>

datatype tool_call =
    Generate_token string string
  | Get_user_data string
  | Get_payment_link string string string
  | Get_contacts string string
  | Get_llmbuilder string string
  | RequestAssistance string

fun call_tool :: "env \<Rightarrow> tool_call \<Rightarrow> request list \<times> (error + jsval)" where
  "call_tool e (Generate_token phone token) = generate_token e phone token"
| "call_tool e (Get_user_data phone) = get_user_data e phone"
| "call_tool e (Get_payment_link phone id_condominio id_unidade) =
     get_payment_link e phone id_condominio id_unidade"
| "call_tool e (Get_contacts phone id_condominio) = get_contacts e phone id_condominio"
| "call_tool e (Get_llmbuilder phone condomino) = get_llmbuilder e"
| "call_tool e (RequestAssistance phone) = requestAssistance e"

text \<open>Scheme, host and path of a URL: what stands before the query and the fragment.\<close>

definition endpoint :: "string \<Rightarrow> string" where
  "endpoint u = takeWhile (\<lambda>c. c \<noteq> CHR ''?'' \<and> c \<noteq> CHR ''#'') u"

section \<open>Page state\<close>

text \<open>
  An entry of the event log, \<^verbatim>\<open>interface RealtimeEvent\<close>: \<^verbatim>\<open>count\<close> is optional;
  \<open>event_type\<close> is \<^verbatim>\<open>event.type\<close>, the name of the event (a string in every event of the
  realtime client), \<open>event_data\<close> the rest of \<^verbatim>\<open>event\<close>.
\<close>

record RealtimeEvent =
  time :: string
  source :: string
  count :: "nat option"
  event_type :: string
  event_data :: jsval

text \<open>
  The updater the \<^verbatim>\<open>realtime.event\<close> handler hands to \<^verbatim>\<open>setRealtimeEvents\<close>. On an empty
  log \<^verbatim>\<open>lastEvent\<close> is \<^verbatim>\<open>undefined\<close> and \<^verbatim>\<open>lastEvent?.event.type\<close> is no string;
  \<^verbatim>\<open>lastEvent.count || 0\<close> is 0 for a missing count; \<^verbatim>\<open>slice(0, -1)\<close> drops the last entry.
\<close>

definition on_realtime_event :: "RealtimeEvent list \<Rightarrow> RealtimeEvent \<Rightarrow> RealtimeEvent list" where
  "on_realtime_event log realtimeEvent =
     (if log \<noteq> [] \<and> event_type (last log) = event_type realtimeEvent
      then
        (let lastEvent = last log;
             lastEvent' = lastEvent\<lparr>count := Some ((case count lastEvent of None \<Rightarrow> 0 | Some n \<Rightarrow> n) + 1)\<rparr>
         in butlast log @ [lastEvent'])
      else log @ [realtimeEvent])"

text \<open>The log after a sequence of events, from a given log.\<close>

fun event_log :: "RealtimeEvent list \<Rightarrow> RealtimeEvent list \<Rightarrow> RealtimeEvent list" where
  "event_log log [] = log"
| "event_log log (ev # evs) = event_log (on_realtime_event log ev) evs"

text \<open>No two consecutive entries of the log have the same \<^verbatim>\<open>event.type\<close>.\<close>

definition no_repeat :: "RealtimeEvent list \<Rightarrow> bool" where
  "no_repeat log = distinct_adj (map event_type log)"

text \<open>
  The \<^verbatim>\<open>useState\<close> variables the two pages share, then those of \<^verbatim>\<open>ConsolePage\<close> and of
  \<^verbatim>\<open>Main\<close>. Conversation items, coordinates and the key-value objects are opaque values.
\<close>

record page_state =
  items :: "jsval list"
  realtimeEvents :: "RealtimeEvent list"
  expandedEvents :: "(string \<times> bool) list"
  isConnected :: bool
  canPushToTalk :: bool
  isRecording :: bool

record console_state = page_state +
  memoryKv :: "(string \<times> jsval) list"
  coords :: jsval
  marker :: jsval
  userData :: "(string \<times> jsval) list"

record main_state = page_state +
  isVideoLoaded :: bool

text \<open>
  The state updates of \<^verbatim>\<open>connectConversation\<close> and \<^verbatim>\<open>disconnectConversation\<close>, one setter
  call after the other; \<open>client_items\<close> is \<^verbatim>\<open>client.conversation.getItems()\<close>. The calls on
  the recorder, the player, the client and the avatar session, and the start time that
  \<^verbatim>\<open>ConsolePage\<close> keeps in a ref, touch no \<^verbatim>\<open>useState\<close> variable. In \<^verbatim>\<open>ConsolePage\<close> both
  functions are the same on the shared variables and set nothing else; in \<^verbatim>\<open>Main\<close>
  \<^verbatim>\<open>disconnectConversation\<close> goes on, after \<^verbatim>\<open>await heygenEnd()\<close> (which catches every
  error), with \<^verbatim>\<open>setIsVideoLoaded(false)\<close>.
\<close>

definition setIsConnected :: "bool \<Rightarrow> ('a page_state_scheme) \<Rightarrow> ('a page_state_scheme)" where
  "setIsConnected v st = st\<lparr>isConnected := v\<rparr>"

definition setRealtimeEvents ::
    "RealtimeEvent list \<Rightarrow> ('a page_state_scheme) \<Rightarrow> ('a page_state_scheme)" where
  "setRealtimeEvents v st = st\<lparr>realtimeEvents := v\<rparr>"

definition setItems :: "jsval list \<Rightarrow> ('a page_state_scheme) \<Rightarrow> ('a page_state_scheme)" where
  "setItems v st = st\<lparr>items := v\<rparr>"

definition setIsVideoLoaded :: "bool \<Rightarrow> main_state \<Rightarrow> main_state" where
  "setIsVideoLoaded v st = st\<lparr>isVideoLoaded := v\<rparr>"

definition connectConversation ::
    "jsval list \<Rightarrow> ('a page_state_scheme) \<Rightarrow> ('a page_state_scheme)" where
  "connectConversation client_items st =
     setItems client_items (setRealtimeEvents [] (setIsConnected True st))"

definition console_disconnectConversation :: "console_state \<Rightarrow> console_state" where
  "console_disconnectConversation st =
     setItems [] (setRealtimeEvents [] (setIsConnected False st))"

definition main_disconnectConversation :: "main_state \<Rightarrow> main_state" where
  "main_disconnectConversation st =
     setIsVideoLoaded False (setItems [] (setRealtimeEvents [] (setIsConnected False st)))"

section \<open>useHeygen\<close>

text \<open>
  The hook throws on a missing key or URL (\<^verbatim>\<open>!apiKey || !serverUrl\<close>, on strings: the
  empty string) and otherwise returns an object; the model returns the names of its
  members, in the order of the object literal.
\<close>

definition useHeygen :: "string \<Rightarrow> string \<Rightarrow> error + string list" where
  "useHeygen apiKey serverUrl =
     (if apiKey = [] \<or> serverUrl = []
      then Inl (Error ''Heygen -> Both apiKey and serverUrl are required.'')
      else Inr [''heygenStart'', ''heygenEnd'', ''heygenSendText'', ''mediaElementRef''])"

text \<open>
  \<^verbatim>\<open>heygenSendText\<close> of the hook created with \<open>apiKey\<close> and \<open>serverUrl\<close>, when
  \<^verbatim>\<open>sessionInfoRef.current\<close> is \<open>sessionInfo\<close>: the requests it issues. The ref object itself
  is never falsy, so the first guard never returns. Reading \<^verbatim>\<open>session_id\<close> of a \<^verbatim>\<open>null\<close>
  session throws inside the \<^verbatim>\<open>try\<close>, before \<^verbatim>\<open>fetch\<close> is called, and is caught.
\<close>

definition heygenSendText :: "string \<Rightarrow> string \<Rightarrow> jsval \<Rightarrow> string \<Rightarrow> request list" where
  "heygenSendText apiKey serverUrl sessionInfo texto =
     (if length texto = 0 then []
      else case get_prop sessionInfo ''session_id'' of
             Inl err \<Rightarrow> []
           | Inr session_id \<Rightarrow>
               [\<lparr>http_method = POST, url = serverUrl @ ''/v1/streaming.task'',
                 body = Some (JObj [(''session_id'', session_id), (''text'', JStr texto)])\<rparr>])"

section \<open>Notions used in the statements\<close>

text \<open>Nine decimal digits.\<close>

definition nine_digits :: "string \<Rightarrow> bool" where
  "nine_digits d = (length d = 9 \<and> list_all is_digit d)"

text \<open>The two halves of \<open>phone_regex\<close>: the optional country code and the local number.\<close>

definition cc_match :: "caps \<times> string \<Rightarrow> (caps \<times> string) list" where
  "cc_match =
     rx_match (Seq (Opt (Atom (Lit CHR ''+''))) (Seq (Atom (Lit CHR ''5'')) (Atom (Lit CHR ''5''))))"

definition local_match :: "caps \<times> string \<Rightarrow> (caps \<times> string) list" where
  "local_match = rx_match (Seq (Cap 1 (Times 9 (Atom Digit))) Eos)"

text \<open>
  A property read that cannot throw: \<^verbatim>\<open>v.k\<close> for a value that is neither \<^verbatim>\<open>null\<close> nor
  \<^verbatim>\<open>undefined\<close>.
\<close>

definition non_null :: "jsval \<Rightarrow> bool" where
  "non_null v = (v \<noteq> JNull \<and> v \<noteq> JUndefined)"

definition read_prop :: "jsval \<Rightarrow> string \<Rightarrow> jsval" where
  "read_prop v k = (case v of JObj kvs \<Rightarrow> (case map_of kvs k of Some x \<Rightarrow> x | None \<Rightarrow> JUndefined)
               | _ \<Rightarrow> JUndefined)"

definition has_key :: "jsval \<Rightarrow> string \<Rightarrow> bool" where
  "has_key v k = (case v of JObj kvs \<Rightarrow> k \<in> set (map fst kvs) | _ \<Rightarrow> False)"

text \<open>An environment whose \<^verbatim>\<open>fetch\<close> answers every request with one response, on a given date.\<close>

definition answering :: "response \<Rightarrow> int \<Rightarrow> int \<Rightarrow> env" where
  "answering result y m = \<lparr>fetch = (\<lambda>req. Inr result), getFullYear = y, getMonth = m\<rparr>"

text \<open>The requests of the four handlers that call \<^verbatim>\<open>fetch\<close>, as the code builds them.\<close>

definition token_request :: "string \<Rightarrow> string \<Rightarrow> request" where
  "token_request phone token =
     \<lparr>http_method = POST,
      url = ''https://api.z-api.io/instances/3CEEA0A6BCD2D0E49FB9D6E96DCD545E/token/ECF5B6F24C278CF3BFB55D3C/send-button-otp'',
      body = Some (JObj [(''phone'', JStr phone), (''message'', JStr (otp_message token)),
                         (''code'', JStr token)])\<rparr>"

definition unidades_request :: "string \<Rightarrow> string \<Rightarrow> request" where
  "unidades_request id_condominio phone =
     \<lparr>http_method = GET,
      url = ''https://api.superlogica.net/v2/condor/unidades/index?idCondominio='' @ id_condominio @
            ''&exibirGruposDasUnidades=0&itensPorPagina=50&pagina=1&exibirDadosDosContatos=1&pesquisa='' @
            formatPhoneNumber phone,
      body = None\<rparr>"

definition cobranca_request :: "env \<Rightarrow> string \<Rightarrow> string \<Rightarrow> request" where
  "cobranca_request e id_condominio id_unidade =
     \<lparr>http_method = GET,
      url = ''https://api.superlogica.net/v2/condor/cobranca/index?status=validos&apenasColunasPrincipais=1&exibirPgtoComDiferenca=1&comContatosDaUnidade=1&idCondominio='' @
            id_condominio @ ''&dtInicio='' @ dtInicio e @ ''&dtFim='' @ dtFim e @
            ''&UNIDADES[0]='' @ id_unidade,
      body = None\<rparr>"

text \<open>The \<^verbatim>\<open>Error\<close> a handler constructs itself, as opposed to what the runtime throws.\<close>

fun is_Error :: "error + 'a \<Rightarrow> bool" where
  "is_Error (Inl (Error msg)) = True"
| "is_Error r = False"

text \<open>
  The shape of a billing row that the loop of get\_payment\_link reads without throwing:
  the row and its \<^verbatim>\<open>json\<close> member are neither \<^verbatim>\<open>null\<close> nor \<^verbatim>\<open>undefined\<close>, and when
  \<^verbatim>\<open>json.status\<close> is defined the two date members are strings.
\<close>

fun is_JStr :: "jsval \<Rightarrow> bool" where
  "is_JStr (JStr s) = True"
| "is_JStr v = False"

fun the_str :: "jsval \<Rightarrow> string" where
  "the_str (JStr s) = s"
| "the_str v = []"

definition status_defined :: "jsval \<Rightarrow> bool" where
  "status_defined item = (read_prop (read_prop item ''json'') ''status'' \<noteq> JUndefined)"

definition billing_row_ok :: "jsval \<Rightarrow> bool" where
  "billing_row_ok item =
     (non_null item \<and> non_null (read_prop item ''json'') \<and>
      (status_defined item \<longrightarrow>
         is_JStr (read_prop (read_prop item ''json'') ''dt_geracao_recb'') \<and>
         is_JStr (read_prop (read_prop item ''json'') ''dt_vencimento_recb'')))"

text \<open>
  What the claim says of an output row \<open>out\<close> for the input row \<open>item\<close>, member by member;
  a member that is not there reads as \<^verbatim>\<open>undefined\<close>.
\<close>

definition cobranca_rel :: "jsval \<Rightarrow> jsval \<Rightarrow> bool" where
  "cobranca_rel item out =
     (let j = read_prop item ''json'' in
      read_prop out ''data_boleto'' = JStr (date_text (the_str (read_prop j ''dt_geracao_recb''))) \<and>
      read_prop out ''vencimento'' = JStr (date_text (the_str (read_prop j ''dt_vencimento_recb''))) \<and>
      read_prop out ''valor'' = read_prop j ''vl_emitido_recb'' \<and>
      has_key out ''juros'' = (read_prop j ''nm_txjuros_cond'' \<noteq> JStr '''') \<and>
      read_prop out ''juros'' =
        (if read_prop j ''nm_txjuros_cond'' \<noteq> JStr '''' then read_prop j ''nm_txjuros_cond''
         else JUndefined) \<and>
      has_key out ''multa'' = (read_prop j ''nm_txmulta_cond'' \<noteq> JStr '''') \<and>
      read_prop out ''multa'' =
        (if read_prop j ''nm_txmulta_cond'' \<noteq> JStr '''' then read_prop j ''nm_txmulta_cond''
         else JUndefined) \<and>
      has_key out ''status'' = (read_prop j ''fl_status_recb'' \<noteq> JStr '''') \<and>
      read_prop out ''status'' =
        (if read_prop j ''fl_status_recb'' = JStr '''' then JUndefined
         else if read_prop j ''fl_status_recb'' = JStr ''3'' then JStr ''Pago''
         else JStr ''Pendente'') \<and>
      read_prop out ''total'' = read_prop j ''vl_total_recb'' \<and>
      read_prop out ''pix'' = read_prop j ''st_pixqrcode_recb'' \<and>
      read_prop out ''link'' = read_prop j ''link_segundavia'')"

text \<open>The row of get\_user\_data for an input row, as the claim lists its members.\<close>

definition unit_row :: "string \<Rightarrow> jsval \<Rightarrow> jsval" where
  "unit_row phone item =
     JObj [(''nome_condominio'', read_prop item ''st_fantasia_cond''),
           (''cpf_proprietario'', read_prop item ''cpf_proprietario''),
           (''email_proprietario'', read_prop item ''email_proprietario''),
           (''unidade_apartamento'', read_prop item ''st_unidade_uni''),
           (''id_unidade'', read_prop item ''id_unidade_uni''),
           (''id_condominio'', read_prop item ''id_condominio_cond''),
           (''telefone'', JStr (formatPhoneNumber phone))]"

section \<open>Regular expression matching: facts\<close>

lemma iterate_Nil [simp]: "iterate n f [] = []"
  by (induction n) auto

lemma iterate_atom:
  "iterate n (rx_match (Atom a)) [(c, s)] =
     (if n \<le> length s \<and> list_all (cls_ok a) (take n s) then [(c, drop n s)] else [])"
proof (induction n arbitrary: s)
  case 0
  show ?case by simp
next
  case (Suc n)
  show ?case using Suc.IH by (cases s) auto
qed

lemma search_hit:
  "rx_match r ([], s) = (c, rest) # ms \<Longrightarrow> rx_search r pre s = Some (pre, c, rest)"
  by simp

lemma search_skip:
  "(\<And>k. k < length u \<Longrightarrow> rx_match r ([], drop k u @ s) = []) \<Longrightarrow>
   rx_search r pre (u @ s) = rx_search r (pre @ u) s"
proof (induction u arbitrary: pre)
  case Nil
  show ?case by simp
next
  case (Cons x u)
  have "rx_match r ([], (x # u) @ s) = []"
    using Cons.prems [of 0] by simp
  moreover have "rx_search r (pre @ [x]) (u @ s) = rx_search r ((pre @ [x]) @ u) s"
  proof (rule Cons.IH)
    fix k
    assume "k < length u"
    then show "rx_match r ([], drop k u @ s) = []"
      using Cons.prems [of "Suc k"] by simp
  qed
  ultimately show ?case by simp
qed

lemma search_found:
  "rx_search r pre s = Some (pre', c, rest) \<Longrightarrow>
   \<exists>u m ms. s = u @ m \<and> pre' = pre @ u \<and> rx_match r ([], m) = (c, rest) # ms"
proof (induction s arbitrary: pre)
  case Nil
  then show ?case by (auto split: list.splits)
next
  case (Cons x xs)
  show ?case
  proof (cases "rx_match r ([], x # xs)")
    case Nil
    with Cons.prems have "rx_search r (pre @ [x]) xs = Some (pre', c, rest)"
      by simp
    from Cons.IH [OF this] obtain u m ms where
      "xs = u @ m" "pre' = (pre @ [x]) @ u" "rx_match r ([], m) = (c, rest) # ms"
      by blast
    then have "x # xs = (x # u) @ m \<and> pre' = pre @ (x # u) \<and>
        rx_match r ([], m) = (c, rest) # ms"
      by simp
    then show ?thesis by blast
  next
    case (Cons a list)
    with Cons.prems have "x # xs = [] @ (x # xs) \<and> pre' = pre @ [] \<and>
        rx_match r ([], x # xs) = (c, rest) # list"
      by (cases a) auto
    then show ?thesis by blast
  qed
qed

section \<open>formatPhoneNumber: facts\<close>

lemma local_match_eq:
  "local_match (c, s) = (if nine_digits s then [((1, s) # c, [])] else [])"
  by (auto simp: local_match_def iterate_atom nine_digits_def list_all_iff dest: in_set_takeD)

lemma cc_match_eq:
  "cc_match (c, s) =
     (if take 3 s = ''+55'' then [(c, drop 3 s)]
      else if take 2 s = ''55'' then [(c, drop 2 s)] else [])"
  by (auto simp: cc_match_def split: list.splits)

lemma phone_match_eq:
  "rx_match phone_regex (c, s) = concat (map local_match (cc_match (c, s))) @ local_match (c, s)"
  by (simp add: phone_regex_def cc_match_def local_match_def)

lemma phone_match_plus:
  "nine_digits d \<Longrightarrow> rx_match phone_regex ([], ''+55'' @ d) = [([(1, d)], [])]"
  by (simp add: phone_match_eq cc_match_eq local_match_eq nine_digits_def is_digit_def)

lemma phone_match_cc:
  "nine_digits d \<Longrightarrow> rx_match phone_regex ([], ''55'' @ d) = [([(1, d)], [])]"
  by (simp add: phone_match_eq cc_match_eq local_match_eq nine_digits_def)

lemma phone_match_local:
  "nine_digits d \<Longrightarrow> rx_match phone_regex ([], d) = [([(1, d)], [])]"
  by (cases d) (auto simp add: phone_match_eq cc_match_eq local_match_eq nine_digits_def)

lemma phone_match_shape:
  assumes "rx_match phone_regex ([], s) \<noteq> []"
  shows "\<exists>d. nine_digits d \<and> (s = ''+55'' @ d \<or> s = ''55'' @ d \<or> s = d)"
proof -
  consider "nine_digits s"
    | "take 3 s = ''+55''" "nine_digits (drop 3 s)"
    | "take 2 s = ''55''" "nine_digits (drop 2 s)"
    using assms
    by (auto simp: phone_match_eq cc_match_eq local_match_eq split: if_splits)
  then show ?thesis
  proof cases
    case 1
    then show ?thesis by blast
  next
    case 2
    have "s = take 3 s @ drop 3 s" by simp
    with 2 have "nine_digits (drop 3 s) \<and> s = ''+55'' @ drop 3 s" by simp
    then show ?thesis by blast
  next
    case 3
    have "s = take 2 s @ drop 2 s" by simp
    with 3 have "nine_digits (drop 2 s) \<and> s = ''55'' @ drop 2 s" by simp
    then show ?thesis by blast
  qed
qed

lemma phone_match_length: "rx_match phone_regex ([], s) \<noteq> [] \<Longrightarrow> length s \<le> 12"
  by (drule phone_match_shape) (auto simp: nine_digits_def)

lemma phone_match_12:
  "rx_match phone_regex ([], s) \<noteq> [] \<Longrightarrow> length s = 12 \<Longrightarrow> take 1 s = ''+''"
  by (drule phone_match_shape) (auto simp: nine_digits_def)

lemma format_plus:
  assumes "nine_digits d"
  shows "formatPhoneNumber (p @ ''+55'' @ d) = p @ d"
proof -
  have "rx_match phone_regex ([], drop k p @ ''+55'' @ d) = []" if "k < length p" for k
  proof (rule ccontr)
    assume "rx_match phone_regex ([], drop k p @ ''+55'' @ d) \<noteq> []"
    from phone_match_length [OF this] that assms show False
      by (simp add: nine_digits_def)
  qed
  then have "rx_search phone_regex [] (p @ ''+55'' @ d) =
      rx_search phone_regex ([] @ p) (''+55'' @ d)"
    by (rule search_skip)
  also have "\<dots> = Some (p, [(1, d)], [])"
    using search_hit [OF phone_match_plus [OF assms]] by simp
  finally show ?thesis
    by (simp add: formatPhoneNumber_def js_replace_def)
qed

lemma format_cc:
  assumes "nine_digits d" and "p = [] \<or> last p \<noteq> CHR ''+''"
  shows "formatPhoneNumber (p @ ''55'' @ d) = p @ d"
proof -
  have "rx_match phone_regex ([], drop k p @ ''55'' @ d) = []" if "k < length p" for k
  proof (rule ccontr)
    assume ne: "rx_match phone_regex ([], drop k p @ ''55'' @ d) \<noteq> []"
    from phone_match_length [OF ne] that assms(1) have len: "length (drop k p) = 1"
      by (simp add: nine_digits_def)
    then have "length (drop k p @ ''55'' @ d) = 12"
      using assms(1) by (simp add: nine_digits_def)
    from phone_match_12 [OF ne this] len have "drop k p = ''+''"
      by (cases "drop k p") auto
    moreover have "last (drop k p) = last p"
      using that by (simp add: last_drop)
    ultimately show False
      using assms(2) that by auto
  qed
  then have "rx_search phone_regex [] (p @ ''55'' @ d) =
      rx_search phone_regex ([] @ p) (''55'' @ d)"
    by (rule search_skip)
  also have "\<dots> = Some (p, [(1, d)], [])"
    using search_hit [OF phone_match_cc [OF assms(1)]] by simp
  finally show ?thesis
    by (simp add: formatPhoneNumber_def js_replace_def)
qed

lemma format_same:
  assumes "\<not> (\<exists>p d. nine_digits d \<and> phone = p @ ''55'' @ d)"
  shows "formatPhoneNumber phone = phone"
proof (cases "rx_search phone_regex [] phone")
  case None
  then show ?thesis
    by (simp add: formatPhoneNumber_def js_replace_def)
next
  case (Some a)
  obtain pre c rest where a: "a = (pre, c, rest)"
    by (cases a) auto
  from search_found [OF Some [unfolded a]] obtain u m ms where
    um: "phone = u @ m" "pre = u" "rx_match phone_regex ([], m) = (c, rest) # ms"
    by auto
  then have "rx_match phone_regex ([], m) \<noteq> []"
    by simp
  from phone_match_shape [OF this] obtain d where
    d: "nine_digits d" "m = ''+55'' @ d \<or> m = ''55'' @ d \<or> m = d"
    by blast
  have "m = d"
  proof (rule ccontr)
    assume "m \<noteq> d"
    with d(2) have "phone = (u @ ''+'') @ ''55'' @ d \<or> phone = u @ ''55'' @ d"
      using um(1) by auto
    with d(1) assms show False by blast
  qed
  with um(3) phone_match_local [OF d(1)] have "c = [(1, d)]" "rest = []"
    by auto
  with Some a um \<open>m = d\<close> show ?thesis
    by (simp add: formatPhoneNumber_def js_replace_def)
qed

lemma format_eleven:
  assumes "length phone = 11" and "take 2 phone \<noteq> ''55''"
  shows "formatPhoneNumber phone = phone"
proof (rule format_same, rule notI)
  assume "\<exists>p d. nine_digits d \<and> phone = p @ ''55'' @ d"
  then obtain p d where pd: "nine_digits d" "phone = p @ ''55'' @ d"
    by blast
  from pd(1) have "length d = 9" by (simp add: nine_digits_def)
  moreover from pd(2) have "length phone = length p + 2 + length d" by simp
  ultimately have "p = []" using assms(1) by simp
  with pd(2) have "take 2 phone = ''55''" by simp
  with assms(2) show False by simp
qed

text \<open>
  C4. \<open>formatPhoneNumber phone\<close> is \<open>phone\<close> itself unless \<open>phone\<close> ends with nine decimal
  digits that follow \<open>55\<close> or \<open>+55\<close>; then exactly that \<open>+55\<close> (or, with no \<open>+\<close> before it,
  that \<open>55\<close>) is deleted and everything else, the last nine digits included, is kept. In
  particular a string of eleven characters that does not start with \<open>55\<close>, such as the
  eleven-digit number 21974894586 with area code 21, is returned unchanged.
\<close>

theorem formatPhoneNumber_strips_country_code:
  "(\<forall>p d. nine_digits d \<and> phone = p @ ''+55'' @ d \<longrightarrow> formatPhoneNumber phone = p @ d) \<and>
   (\<forall>p d. nine_digits d \<and> phone = p @ ''55'' @ d \<and> (p = [] \<or> last p \<noteq> CHR ''+'') \<longrightarrow>
      formatPhoneNumber phone = p @ d) \<and>
   ((\<nexists>p d. nine_digits d \<and> phone = p @ ''55'' @ d) \<longrightarrow> formatPhoneNumber phone = phone) \<and>
   (length phone = 11 \<and> take 2 phone \<noteq> ''55'' \<longrightarrow> formatPhoneNumber phone = phone)"
proof (intro conjI allI impI)
  fix p d
  assume "nine_digits d \<and> phone = p @ ''+55'' @ d"
  then show "formatPhoneNumber phone = p @ d" using format_plus [of d p] by blast
next
  fix p d
  assume "nine_digits d \<and> phone = p @ ''55'' @ d \<and> (p = [] \<or> last p \<noteq> CHR ''+'')"
  then show "formatPhoneNumber phone = p @ d" using format_cc [of d p] by blast
next
  assume "\<nexists>p d. nine_digits d \<and> phone = p @ ''55'' @ d"
  then show "formatPhoneNumber phone = phone" by (rule format_same)
next
  assume "length phone = 11 \<and> take 2 phone \<noteq> ''55''"
  then show "formatPhoneNumber phone = phone" by (simp add: format_eleven)
qed

theorem formatPhoneNumber_strips_country_code_witness:
  "formatPhoneNumber ''+55974894586'' = ''974894586'' \<and>
   formatPhoneNumber ''55974894586'' = ''974894586'' \<and>
   formatPhoneNumber ''(21) 97489-4586'' = ''(21) 97489-4586'' \<and>
   formatPhoneNumber ''21974894586'' = ''21974894586''"
proof -
  have nine: "nine_digits ''974894586''"
    by (simp add: nine_digits_def is_digit_def)
  have a: "\<forall>p d. nine_digits d \<and> ''+55974894586'' = p @ ''+55'' @ d \<longrightarrow>
      formatPhoneNumber ''+55974894586'' = p @ d"
    using formatPhoneNumber_strips_country_code [of "''+55974894586''"] by (rule conjunct1)
  have 1: "formatPhoneNumber ''+55974894586'' = ''974894586''"
    using a [rule_format, of "''974894586''" "[]"] nine by simp
  have b: "\<forall>p d. nine_digits d \<and> ''55974894586'' = p @ ''55'' @ d \<and> (p = [] \<or> last p \<noteq> CHR ''+'') \<longrightarrow>
      formatPhoneNumber ''55974894586'' = p @ d"
    using formatPhoneNumber_strips_country_code [of "''55974894586''"] by (elim conjE)
  have 2: "formatPhoneNumber ''55974894586'' = ''974894586''"
    using b [rule_format, of "''974894586''" "[]"] nine by simp
  have c: "(\<nexists>p d. nine_digits d \<and> ''(21) 97489-4586'' = p @ ''55'' @ d) \<longrightarrow>
      formatPhoneNumber ''(21) 97489-4586'' = ''(21) 97489-4586''"
    using formatPhoneNumber_strips_country_code [of "''(21) 97489-4586''"] by (elim conjE)
  have "\<nexists>p d. nine_digits d \<and> ''(21) 97489-4586'' = p @ ''55'' @ d"
  proof
    assume "\<exists>p d. nine_digits d \<and> ''(21) 97489-4586'' = p @ ''55'' @ d"
    then obtain p d where pd: "nine_digits d" "''(21) 97489-4586'' = p @ ''55'' @ d"
      by blast
    from pd(1) have ld: "length d = 9" by (simp add: nine_digits_def)
    from pd(2) have "length ''(21) 97489-4586'' = length p + 2 + length d"
      by (simp only: length_append list.size)
    with ld have lp: "length p = 4" by simp
    from pd(2) have "drop 6 ''(21) 97489-4586'' = drop 6 (p @ ''55'' @ d)"
      by (rule arg_cong)
    with lp have "d = ''7489-4586''" by simp
    with pd(1) show False
      by (simp add: nine_digits_def is_digit_def)
  qed
  with c have 3: "formatPhoneNumber ''(21) 97489-4586'' = ''(21) 97489-4586''" by (rule mp)
  have 4: "formatPhoneNumber ''21974894586'' = ''21974894586''"
    using formatPhoneNumber_strips_country_code [of "''21974894586''"] by simp
  from 1 2 3 4 show ?thesis by (intro conjI)
qed

section \<open>The handlers: what they request and what they return\<close>

lemma generate_token_run:
  "generate_token e phone token =
     ([token_request phone token],
      case fetch e (token_request phone token) of
        Inl err \<Rightarrow> Inl err
      | Inr result \<Rightarrow>
          if \<not> ok result
          then Inl (Error (''Erro ao enviar OTP: '' @ show_nat (status result) @ '' '' @
                           statusText result))
          else ebind (result_json result) (\<lambda>json. Inr (JStr '''')))"
  by (simp add: generate_token_def token_request_def Let_def split: sum.split)

lemma get_user_data_run:
  "get_user_data e phone =
     ([unidades_request ''-1'' phone],
      case fetch e (unidades_request ''-1'' phone) of
        Inl err \<Rightarrow> Inl err
      | Inr result \<Rightarrow>
          if \<not> ok result then Inl (request_error result)
          else ebind (result_json result) (\<lambda>json.
               ebind (iter_of json) (\<lambda>rows.
               ebind (arrconds (formatPhoneNumber phone) rows []) (\<lambda>arr.
                 Inr (JObj [(''data'', JArr arr)])))))"
  by (simp add: get_user_data_def unidades_request_def Let_def split: sum.split)

lemma get_payment_link_run:
  "get_payment_link e phone id_condominio id_unidade =
     ([cobranca_request e id_condominio id_unidade],
      case fetch e (cobranca_request e id_condominio id_unidade) of
        Inl err \<Rightarrow> Inl err
      | Inr result \<Rightarrow>
          if \<not> ok result then Inl (request_error result)
          else ebind (result_json result) (\<lambda>json.
               ebind (iter_of json) (\<lambda>rows.
               ebind (arrCobrancas rows []) (\<lambda>arr.
                 Inr (JObj [(''data'', JArr arr)])))))"
  by (simp add: get_payment_link_def cobranca_request_def Let_def split: sum.split)

lemma get_contacts_run:
  "get_contacts e phone id_condominio =
     ([unidades_request id_condominio phone],
      case fetch e (unidades_request id_condominio phone) of
        Inl err \<Rightarrow> Inl err
      | Inr result \<Rightarrow>
          if \<not> ok result then Inl (request_error result)
          else ebind (result_json result) (\<lambda>json.
               ebind (get_prop json ''contatos'') (\<lambda>contatos.
               ebind (iter_of contatos) (\<lambda>rows.
               ebind (arrContatos rows []) (\<lambda>arr.
                 Inr (JObj [(''data'', JArr arr)]))))))"
  by (simp add: get_contacts_def unidades_request_def Let_def split: sum.split)

lemma endpoint_token: "endpoint (url (token_request phone token)) =
  ''https://api.z-api.io/instances/3CEEA0A6BCD2D0E49FB9D6E96DCD545E/token/ECF5B6F24C278CF3BFB55D3C/send-button-otp''"
  by (simp add: endpoint_def token_request_def)

lemma endpoint_unidades: "endpoint (url (unidades_request id_condominio phone)) =
  ''https://api.superlogica.net/v2/condor/unidades/index''"
  by (simp add: endpoint_def unidades_request_def)

lemma endpoint_cobranca: "endpoint (url (cobranca_request e id_condominio id_unidade)) =
  ''https://api.superlogica.net/v2/condor/cobranca/index''"
  by (simp add: endpoint_def cobranca_request_def)

text \<open>
  C5. The endpoints are fixed: whatever the arguments and the environment, generate\_token
  issues one POST to the z-api send-button-otp URL, get\_user\_data and get\_contacts one
  GET to \<^verbatim>\<open>https://api.superlogica.net/v2/condor/unidades/index\<close>, get\_payment\_link one
  GET to \<^verbatim>\<open>https://api.superlogica.net/v2/condor/cobranca/index\<close>; the arguments reach
  only what follows the \<^verbatim>\<open>?\<close> of the URL and, for generate\_token, the body.
\<close>

theorem tool_endpoints_fixed:
  "map (\<lambda>r. (http_method r, endpoint (url r))) (fst (call_tool e (Generate_token phone token))) =
     [(POST, ''https://api.z-api.io/instances/3CEEA0A6BCD2D0E49FB9D6E96DCD545E/token/ECF5B6F24C278CF3BFB55D3C/send-button-otp'')] \<and>
   map (\<lambda>r. (http_method r, endpoint (url r))) (fst (call_tool e (Get_user_data phone))) =
     [(GET, ''https://api.superlogica.net/v2/condor/unidades/index'')] \<and>
   map (\<lambda>r. (http_method r, endpoint (url r))) (fst (call_tool e (Get_contacts phone id_condominio))) =
     [(GET, ''https://api.superlogica.net/v2/condor/unidades/index'')] \<and>
   map (\<lambda>r. (http_method r, endpoint (url r)))
       (fst (call_tool e (Get_payment_link phone id_condominio id_unidade))) =
     [(GET, ''https://api.superlogica.net/v2/condor/cobranca/index'')] \<and>
   map body (fst (call_tool e (Get_user_data phone))) = [None] \<and>
   map body (fst (call_tool e (Get_contacts phone id_condominio))) = [None] \<and>
   map body (fst (call_tool e (Get_payment_link phone id_condominio id_unidade))) = [None]"
proof -
  have m: "http_method (token_request phone token) = POST"
    "http_method (unidades_request i phone) = GET"
    "http_method (cobranca_request e id_condominio id_unidade) = GET"
    "body (unidades_request i phone) = None"
    "body (cobranca_request e id_condominio id_unidade) = None" for i
    by (simp_all add: token_request_def unidades_request_def cobranca_request_def)
  show ?thesis
    by (simp add: generate_token_run get_user_data_run get_contacts_run get_payment_link_run
        endpoint_token endpoint_unidades endpoint_cobranca m)
qed

theorem tool_endpoints_fixed_witness:
  "map (\<lambda>r. (http_method r, endpoint (url r)))
     (fst (call_tool (answering \<lparr>ok = True, status = 200, statusText = ''OK'', json = None\<rparr> 2025 0)
            (Get_payment_link ''21974894586'' ''3?x=/evil#'' ''452''))) =
   [(GET, ''https://api.superlogica.net/v2/condor/cobranca/index'')]"
  using tool_endpoints_fixed
    [of "answering \<lparr>ok = True, status = 200, statusText = ''OK'', json = None\<rparr> 2025 0"
        "''21974894586''" "''''" "''3?x=/evil#''" "''452''"]
  by (elim conjE)

text \<open>
  C1. Four of the six registered tools issue exactly one request; the handlers of
  get\_llmbuilder and requestAssistance issue none and resolve to the empty string,
  whatever the arguments.
\<close>

theorem stub_tools_issue_no_request:
  "call_tool e (Get_llmbuilder phone condomino) = ([], Inr (JStr '''')) \<and>
   call_tool e (RequestAssistance phone) = ([], Inr (JStr '''')) \<and>
   length (fst (call_tool e (Generate_token phone token))) = 1 \<and>
   length (fst (call_tool e (Get_user_data phone))) = 1 \<and>
   length (fst (call_tool e (Get_payment_link phone id_condominio id_unidade))) = 1 \<and>
   length (fst (call_tool e (Get_contacts phone id_condominio))) = 1"
  by (simp add: get_llmbuilder_def requestAssistance_def generate_token_run get_user_data_run
      get_contacts_run get_payment_link_run)

text \<open>
  C10. \<open>useHeygen\<close> throws its error exactly when the key or the URL is the empty string;
  with both nonempty it returns the four members; and \<open>heygenSendText\<close> issues no request
  for an empty text.
\<close>

theorem useHeygen_guard:
  "(useHeygen apiKey serverUrl = Inl (Error ''Heygen -> Both apiKey and serverUrl are required.'')
      \<longleftrightarrow> apiKey = [] \<or> serverUrl = []) \<and>
   ((\<exists>err. useHeygen apiKey serverUrl = Inl err) \<longleftrightarrow> apiKey = [] \<or> serverUrl = []) \<and>
   (apiKey \<noteq> [] \<and> serverUrl \<noteq> [] \<longrightarrow>
      useHeygen apiKey serverUrl =
        Inr [''heygenStart'', ''heygenEnd'', ''heygenSendText'', ''mediaElementRef'']) \<and>
   heygenSendText apiKey serverUrl sessionInfo [] = []"
  by (auto simp: useHeygen_def heygenSendText_def)

theorem useHeygen_guard_witness:
  "useHeygen ''key'' ''https://api.heygen.com'' =
     Inr [''heygenStart'', ''heygenEnd'', ''heygenSendText'', ''mediaElementRef''] \<and>
   useHeygen [] ''https://api.heygen.com'' =
     Inl (Error ''Heygen -> Both apiKey and serverUrl are required.'') \<and>
   heygenSendText ''key'' ''https://api.heygen.com'' (JObj [(''session_id'', JStr ''s1'')]) [] = []"
  using useHeygen_guard [of "''key''" "''https://api.heygen.com''" "JObj [(''session_id'', JStr ''s1'')]"]
    useHeygen_guard [of "[]" "''https://api.heygen.com''" "JNull"]
  by simp

section \<open>Connecting and disconnecting\<close>

text \<open>
  C6, as the code has it. \<open>connectConversation\<close> sets \<open>isConnected\<close> and empties the event
  log; \<open>disconnectConversation\<close> clears \<open>isConnected\<close> and empties the event log and the
  items. In \<^verbatim>\<open>ConsolePage\<close> it leaves every other state variable as it was; in \<^verbatim>\<open>Main\<close> it
  also sets \<open>isVideoLoaded\<close> to false, and leaves the remaining variables as they were.
\<close>

theorem connect_disconnect_state:
  "isConnected (connectConversation client_items st) = True \<and>
   realtimeEvents (connectConversation client_items st) = [] \<and>
   console_disconnectConversation cst =
     cst\<lparr>isConnected := False, realtimeEvents := [], items := []\<rparr> \<and>
   isConnected (console_disconnectConversation cst) = False \<and>
   realtimeEvents (console_disconnectConversation cst) = [] \<and>
   items (console_disconnectConversation cst) = [] \<and>
   memoryKv (console_disconnectConversation cst) = memoryKv cst \<and>
   coords (console_disconnectConversation cst) = coords cst \<and>
   marker (console_disconnectConversation cst) = marker cst \<and>
   userData (console_disconnectConversation cst) = userData cst \<and>
   expandedEvents (console_disconnectConversation cst) = expandedEvents cst \<and>
   canPushToTalk (console_disconnectConversation cst) = canPushToTalk cst \<and>
   isRecording (console_disconnectConversation cst) = isRecording cst \<and>
   main_disconnectConversation mst =
     mst\<lparr>isConnected := False, realtimeEvents := [], items := [], isVideoLoaded := False\<rparr> \<and>
   isConnected (main_disconnectConversation mst) = False \<and>
   realtimeEvents (main_disconnectConversation mst) = [] \<and>
   items (main_disconnectConversation mst) = [] \<and>
   isVideoLoaded (main_disconnectConversation mst) = False \<and>
   expandedEvents (main_disconnectConversation mst) = expandedEvents mst \<and>
   canPushToTalk (main_disconnectConversation mst) = canPushToTalk mst \<and>
   isRecording (main_disconnectConversation mst) = isRecording mst"
  by (simp add: connectConversation_def console_disconnectConversation_def
      main_disconnectConversation_def setIsConnected_def setRealtimeEvents_def setItems_def
      setIsVideoLoaded_def)

text \<open>
  The claim as stated fails in \<^verbatim>\<open>Main\<close>: with the video loaded, disconnecting changes
  \<open>isVideoLoaded\<close>, a state variable other than \<open>isConnected\<close>, \<open>realtimeEvents\<close> and \<open>items\<close>.
\<close>

theorem main_disconnect_changes_isVideoLoaded:
  "isVideoLoaded
     (main_disconnectConversation
        \<lparr>items = [], realtimeEvents = [], expandedEvents = [], isConnected = True,
         canPushToTalk = True, isRecording = False, isVideoLoaded = True\<rparr>) \<noteq>
   isVideoLoaded
     \<lparr>items = [], realtimeEvents = [], expandedEvents = [], isConnected = True,
      canPushToTalk = True, isRecording = False, isVideoLoaded = True\<rparr>"
  by (simp add: main_disconnectConversation_def setIsConnected_def setRealtimeEvents_def
      setItems_def setIsVideoLoaded_def)

section \<open>The date window of get\_payment\_link\<close>

lemma show_int_5: "show_int 5 = ''5''"
  by code_simp

lemma show_int_1: "show_int 1 = ''1''"
  by code_simp

text \<open>
  C8. With the clock at year \<open>y\<close> and calendar month \<open>m\<close> (so \<^verbatim>\<open>getMonth()\<close> is \<open>m - 1\<close>),
  \<open>dtInicio\<close> is the 5th of month \<open>m - 2\<close> and \<open>dtFim\<close> the 5th of month \<open>m + 1\<close>, carried
  over the year boundary, both written month/day/year, and the request carries them in
  its query. A clock never reads a year below 100, where \<^verbatim>\<open>new Date\<close> would add 1900.
\<close>

theorem payment_link_date_window:
  assumes "getFullYear e = y" and "getMonth e = m - 1" and "1 \<le> m" and "m \<le> 12" and "100 \<le> y"
  shows "dtInicio e =
           (if m \<le> 2 then show_int (m + 10) @ ''/5/'' @ show_int (y - 1)
            else show_int (m - 2) @ ''/5/'' @ show_int y) \<and>
         dtFim e =
           (if m = 12 then ''1/5/'' @ show_int (y + 1)
            else show_int (m + 1) @ ''/5/'' @ show_int y) \<and>
         fst (get_payment_link e phone id_condominio id_unidade) =
           [\<lparr>http_method = GET,
             url = ''https://api.superlogica.net/v2/condor/cobranca/index?status=validos&apenasColunasPrincipais=1&exibirPgtoComDiferenca=1&comContatosDaUnidade=1&idCondominio='' @
                   id_condominio @ ''&dtInicio='' @ dtInicio e @ ''&dtFim='' @ dtFim e @
                   ''&UNIDADES[0]='' @ id_unidade,
             body = None\<rparr>]"
proof (intro conjI)
  show "dtInicio e =
      (if m \<le> 2 then show_int (m + 10) @ ''/5/'' @ show_int (y - 1)
       else show_int (m - 2) @ ''/5/'' @ show_int y)"
  proof (cases "m \<le> 2")
    case True
    with assms have "(m - 1 - 2) div 12 = -1" "(m - 1 - 2) mod 12 = m + 9"
      by presburger+
    with True assms show ?thesis
      by (simp add: dtInicio_def new_Date_def toLocaleDateString_def show_int_5 add.commute)
  next
    case False
    with assms have "(m - 1 - 2) div 12 = 0" "(m - 1 - 2) mod 12 = m - 3"
      by presburger+
    with False assms show ?thesis
      by (simp add: dtInicio_def new_Date_def toLocaleDateString_def show_int_5)
  qed
  show "dtFim e =
      (if m = 12 then ''1/5/'' @ show_int (y + 1) else show_int (m + 1) @ ''/5/'' @ show_int y)"
  proof (cases "m = 12")
    case True
    with assms show ?thesis
      by (simp add: dtFim_def new_Date_def toLocaleDateString_def show_int_5 show_int_1)
  next
    case False
    with assms have "(m - 1 + 1) div 12 = 0" "(m - 1 + 1) mod 12 = m"
      by presburger+
    with False assms show ?thesis
      by (simp add: dtFim_def new_Date_def toLocaleDateString_def show_int_5)
  qed
  show "fst (get_payment_link e phone id_condominio id_unidade) =
      [\<lparr>http_method = GET,
        url = ''https://api.superlogica.net/v2/condor/cobranca/index?status=validos&apenasColunasPrincipais=1&exibirPgtoComDiferenca=1&comContatosDaUnidade=1&idCondominio='' @
              id_condominio @ ''&dtInicio='' @ dtInicio e @ ''&dtFim='' @ dtFim e @
              ''&UNIDADES[0]='' @ id_unidade,
        body = None\<rparr>]"
    by (simp add: get_payment_link_run cobranca_request_def)
qed

theorem payment_link_date_window_witness:
  "dtInicio (answering \<lparr>ok = True, status = 200, statusText = ''OK'', json = None\<rparr> 2025 0) =
     ''11/5/2024'' \<and>
   dtFim (answering \<lparr>ok = True, status = 200, statusText = ''OK'', json = None\<rparr> 2025 0) =
     ''2/5/2025'' \<and>
   dtInicio (answering \<lparr>ok = True, status = 200, statusText = ''OK'', json = None\<rparr> 2024 11) =
     ''10/5/2024'' \<and>
   dtFim (answering \<lparr>ok = True, status = 200, statusText = ''OK'', json = None\<rparr> 2024 11) =
     ''1/5/2025''"
proof -
  have s: "show_int 11 = ''11''" "show_int 2 = ''2''" "show_int 10 = ''10''"
    "show_int 2024 = ''2024''" "show_int 2025 = ''2025''"
    by code_simp+
  have a: "getFullYear (answering r y m) = y" "getMonth (answering r y m) = m" for r y m
    by (simp_all add: answering_def)
  show ?thesis
    using payment_link_date_window
        [of "answering \<lparr>ok = True, status = 200, statusText = ''OK'', json = None\<rparr> 2025 0" 2025 1]
      payment_link_date_window
        [of "answering \<lparr>ok = True, status = 200, statusText = ''OK'', json = None\<rparr> 2024 11" 2024 12]
    by (simp add: a s)
qed

section \<open>The event log\<close>

lemma on_realtime_event_same:
  assumes "log \<noteq> []" and "event_type (last log) = event_type ev"
  shows "on_realtime_event log ev =
    butlast log @ [(last log)\<lparr>count := Some (case count (last log) of None \<Rightarrow> 1 | Some n \<Rightarrow> n + 1)\<rparr>]"
  using assms by (simp add: on_realtime_event_def Let_def split: option.split)

lemma on_realtime_event_other:
  assumes "log = [] \<or> event_type (last log) \<noteq> event_type ev"
  shows "on_realtime_event log ev = log @ [ev]"
  using assms by (auto simp: on_realtime_event_def)

lemma types_after_event:
  "map event_type (on_realtime_event log ev) =
     (if log \<noteq> [] \<and> event_type (last log) = event_type ev then map event_type log
      else map event_type log @ [event_type ev])"
proof (cases "log \<noteq> [] \<and> event_type (last log) = event_type ev")
  case True
  then have "map event_type (on_realtime_event log ev) =
      map event_type (butlast log) @ [event_type (last log)]"
    by (simp add: on_realtime_event_same)
  also have "\<dots> = map event_type (butlast log @ [last log])"
    by simp
  also have "\<dots> = map event_type log"
    using True by simp
  finally show ?thesis using True by simp
next
  case False
  then show ?thesis
    by (simp add: on_realtime_event_other)
qed

lemma no_repeat_step: "no_repeat log \<Longrightarrow> no_repeat (on_realtime_event log ev)"
  by (auto simp: no_repeat_def types_after_event distinct_adj_append_iff last_map)

lemma no_repeat_event_log: "no_repeat log \<Longrightarrow> no_repeat (event_log log evs)"
  by (induction evs arbitrary: log) (simp_all add: no_repeat_step)

text \<open>
  C9. The handler keeps the log free of two consecutive entries with the same
  \<^verbatim>\<open>event.type\<close>, so every log built from the empty one is. An event of the type of the
  last entry leaves the length as it is and adds one to the count of the last entry (1
  when it had none); any other event is appended as it arrived, so with no count when it
  arrives, as the client sends it, with none.
\<close>

theorem realtime_event_log_aggregates:
  "(no_repeat log \<longrightarrow> no_repeat (on_realtime_event log ev)) \<and>
   no_repeat (event_log [] evs) \<and>
   (log \<noteq> [] \<and> event_type (last log) = event_type ev \<longrightarrow>
      on_realtime_event log ev =
        butlast log @
        [(last log)\<lparr>count := Some (case count (last log) of None \<Rightarrow> 1 | Some n \<Rightarrow> n + 1)\<rparr>] \<and>
      length (on_realtime_event log ev) = length log) \<and>
   (log = [] \<or> event_type (last log) \<noteq> event_type ev \<longrightarrow>
      on_realtime_event log ev = log @ [ev] \<and>
      (count ev = None \<longrightarrow> count (last (on_realtime_event log ev)) = None))"
proof (intro conjI impI)
  assume "no_repeat log"
  then show "no_repeat (on_realtime_event log ev)" by (rule no_repeat_step)
next
  show "no_repeat (event_log [] evs)"
    by (rule no_repeat_event_log) (simp add: no_repeat_def)
next
  assume a: "log \<noteq> [] \<and> event_type (last log) = event_type ev"
  then show "on_realtime_event log ev =
      butlast log @
      [(last log)\<lparr>count := Some (case count (last log) of None \<Rightarrow> 1 | Some n \<Rightarrow> n + 1)\<rparr>]"
    by (simp add: on_realtime_event_same)
  with a show "length (on_realtime_event log ev) = length log"
    by simp
next
  assume a: "log = [] \<or> event_type (last log) \<noteq> event_type ev"
  then show b: "on_realtime_event log ev = log @ [ev]"
    by (rule on_realtime_event_other)
  assume "count ev = None"
  with b show "count (last (on_realtime_event log ev)) = None"
    by simp
qed

theorem realtime_event_log_aggregates_witness:
  "on_realtime_event
     [\<lparr>time = ''t1'', source = ''server'', count = None, event_type = ''response.audio.delta'',
       event_data = JNull\<rparr>]
     \<lparr>time = ''t2'', source = ''server'', count = None, event_type = ''response.audio.delta'',
      event_data = JNull\<rparr> =
   [\<lparr>time = ''t1'', source = ''server'', count = Some 1, event_type = ''response.audio.delta'',
     event_data = JNull\<rparr>] \<and>
   on_realtime_event
     [\<lparr>time = ''t1'', source = ''server'', count = Some 1, event_type = ''response.audio.delta'',
       event_data = JNull\<rparr>]
     \<lparr>time = ''t3'', source = ''server'', count = None, event_type = ''response.done'',
      event_data = JNull\<rparr> =
   [\<lparr>time = ''t1'', source = ''server'', count = Some 1, event_type = ''response.audio.delta'',
     event_data = JNull\<rparr>,
    \<lparr>time = ''t3'', source = ''server'', count = None, event_type = ''response.done'',
     event_data = JNull\<rparr>] \<and>
   no_repeat
     (on_realtime_event
        [\<lparr>time = ''t1'', source = ''server'', count = Some 1, event_type = ''response.audio.delta'',
          event_data = JNull\<rparr>]
        \<lparr>time = ''t3'', source = ''server'', count = None, event_type = ''response.done'',
         event_data = JNull\<rparr>)"
  using realtime_event_log_aggregates
      [of "[\<lparr>time = ''t1'', source = ''server'', count = None,
             event_type = ''response.audio.delta'', event_data = JNull\<rparr>]"
          "\<lparr>time = ''t2'', source = ''server'', count = None,
            event_type = ''response.audio.delta'', event_data = JNull\<rparr>"]
    realtime_event_log_aggregates
      [of "[\<lparr>time = ''t1'', source = ''server'', count = Some 1,
             event_type = ''response.audio.delta'', event_data = JNull\<rparr>]"
          "\<lparr>time = ''t3'', source = ''server'', count = None,
            event_type = ''response.done'', event_data = JNull\<rparr>"]
  by (simp add: no_repeat_def)

section \<open>Reading rows\<close>

lemma get_prop_non_null: "non_null v \<Longrightarrow> get_prop v k = Inr (read_prop v k)"
  by (cases v) (simp_all add: non_null_def read_prop_def)

lemma get_prop_null: "\<not> non_null v \<Longrightarrow> get_prop v k = Inl TypeError"
  by (cases v) (simp_all add: non_null_def)

lemma ebind_Inr [simp]: "ebind (Inr v) f = f v"
  by (simp add: ebind_def)

lemma ebind_Inl [simp]: "ebind (Inl err) f = Inl err"
  by (simp add: ebind_def)

lemma cond_non_null: "non_null item \<Longrightarrow> cond (formatPhoneNumber phone) item = Inr (unit_row phone item)"
  by (simp add: cond_def unit_row_def get_prop_non_null)

lemma arrconds_rows:
  "list_all non_null rows \<Longrightarrow>
   arrconds (formatPhoneNumber phone) rows acc = Inr (acc @ map (unit_row phone) rows)"
  by (induction rows arbitrary: acc) (simp_all add: cond_non_null)

lemma item_json_read:
  "non_null item \<Longrightarrow> non_null (read_prop item ''json'') \<Longrightarrow>
   item_json item k = Inr (read_prop (read_prop item ''json'') k)"
  by (simp add: item_json_def get_prop_non_null)

lemma replace_date_JStr: "is_JStr v \<Longrightarrow> replace_date v = Inr (JStr (date_text (the_str v)))"
  by (cases v) (simp_all add: replace_date_def)

lemma cobranca_skipped:
  "billing_row_ok item \<Longrightarrow> \<not> status_defined item \<Longrightarrow> cobranca item = Inr None"
  by (simp add: cobranca_def billing_row_ok_def status_defined_def item_json_read)

lemma read_prop_JObj:
  "read_prop (JObj kvs) k = (case map_of kvs k of Some x \<Rightarrow> x | None \<Rightarrow> JUndefined)"
  by (simp add: read_prop_def)

lemma has_key_JObj: "has_key (JObj kvs) k = (k \<in> set (map fst kvs))"
  by (simp add: has_key_def)

lemma cobranca_pushed:
  assumes "billing_row_ok item" and "status_defined item"
  shows "\<exists>c. cobranca item = Inr (Some c) \<and> cobranca_rel item c"
proof -
  define j where "j = read_prop item ''json''"
  from assms have nn: "non_null item" "non_null (read_prop item ''json'')"
    and st: "read_prop j ''status'' \<noteq> JUndefined"
    and d: "is_JStr (read_prop j ''dt_geracao_recb'')" "is_JStr (read_prop j ''dt_vencimento_recb'')"
    by (simp_all add: billing_row_ok_def status_defined_def j_def)
  have rd: "item_json item k = Inr (read_prop j k)" for k
    unfolding j_def by (rule item_json_read [OF nn])
  define c where "c = JObj (
      [(''data_boleto'', JStr (date_text (the_str (read_prop j ''dt_geracao_recb'')))),
       (''vencimento'', JStr (date_text (the_str (read_prop j ''dt_vencimento_recb'')))),
       (''valor'', read_prop j ''vl_emitido_recb'')] @
      (if read_prop j ''nm_txjuros_cond'' \<noteq> JStr '''' then [(''juros'', read_prop j ''nm_txjuros_cond'')]
       else []) @
      (if read_prop j ''nm_txmulta_cond'' \<noteq> JStr '''' then [(''multa'', read_prop j ''nm_txmulta_cond'')]
       else []) @
      (if read_prop j ''fl_status_recb'' \<noteq> JStr ''''
       then [(''status'', JStr (if read_prop j ''fl_status_recb'' = JStr ''3'' then ''Pago'' else ''Pendente''))]
       else []) @
      [(''total'', read_prop j ''vl_total_recb''), (''pix'', read_prop j ''st_pixqrcode_recb''),
       (''link'', read_prop j ''link_segundavia'')])"
  have "cobranca item = Inr (Some c)"
    unfolding cobranca_def c_def
    by (simp only: rd ebind_Inr st replace_date_JStr [OF d(1)] replace_date_JStr [OF d(2)]
        not_False_eq_True if_True)
  moreover have "cobranca_rel item c"
    unfolding cobranca_rel_def Let_def j_def [symmetric] c_def
    by (simp add: read_prop_JObj has_key_JObj)
  ultimately show ?thesis by blast
qed

lemma arrCobrancas_rows:
  "list_all billing_row_ok rows \<Longrightarrow>
   \<exists>arr. arrCobrancas rows acc = Inr (acc @ arr) \<and>
         list_all2 cobranca_rel (filter status_defined rows) arr"
proof (induction rows arbitrary: acc)
  case Nil
  show ?case by simp
next
  case (Cons item rows)
  then have ok: "billing_row_ok item" and rest: "list_all billing_row_ok rows"
    by simp_all
  show ?case
  proof (cases "status_defined item")
    case False
    with ok have "cobranca item = Inr None" by (simp add: cobranca_skipped)
    with False Cons.IH [OF rest, of acc] show ?thesis by simp
  next
    case True
    with ok obtain c where c: "cobranca item = Inr (Some c)" "cobranca_rel item c"
      using cobranca_pushed by blast
    from Cons.IH [OF rest, of "acc @ [c]"] obtain arr where
      "arrCobrancas rows (acc @ [c]) = Inr ((acc @ [c]) @ arr)"
      "list_all2 cobranca_rel (filter status_defined rows) arr"
      by blast
    with c True have "arrCobrancas (item # rows) acc = Inr (acc @ (c # arr)) \<and>
        list_all2 cobranca_rel (filter status_defined (item # rows)) (c # arr)"
      by simp
    then show ?thesis by blast
  qed
qed

section \<open>The two replacements on a date\<close>

lemma digit_not_space: "is_digit c \<Longrightarrow> \<not> is_space c"
  by (auto simp: is_digit_def is_space_def)

lemma punct_class: "\<not> is_space CHR ''/''" "\<not> is_digit CHR ''/''" "\<not> is_space CHR '':''"
  by (simp_all add: is_digit_def is_space_def)

lemma time_absent:
  assumes "list_all is_digit [d1, d2, m1, m2, y1, y2, y3, y4]"
  shows "js_replace time_regex [] ([d1, d2] @ ''/'' @ [m1, m2] @ ''/'' @ [y1, y2, y3, y4]) =
         [d1, d2] @ ''/'' @ [m1, m2] @ ''/'' @ [y1, y2, y3, y4]"
  using assms
  by (simp add: js_replace_def time_regex_def iterate_atom digit_not_space punct_class)

lemma time_deleted:
  assumes "list_all is_digit [d1, d2, m1, m2, y1, y2, y3, y4, h1, h2, i1, i2, s1, s2]"
    and "is_space w"
  shows "js_replace time_regex [] ([d1, d2] @ ''/'' @ [m1, m2] @ ''/'' @ [y1, y2, y3, y4] @ [w] @
           [h1, h2] @ '':'' @ [i1, i2] @ '':'' @ [s1, s2]) =
         [d1, d2] @ ''/'' @ [m1, m2] @ ''/'' @ [y1, y2, y3, y4]"
  using assms
  by (simp add: js_replace_def time_regex_def iterate_atom digit_not_space punct_class)

lemma day_month_swapped:
  assumes "list_all is_digit [d1, d2, m1, m2, y1, y2, y3, y4]"
  shows "js_replace date_regex [Grp 2, Txt ''/'', Grp 1, Txt ''/'', Grp 3]
           ([d1, d2] @ ''/'' @ [m1, m2] @ ''/'' @ [y1, y2, y3, y4]) =
         [m1, m2] @ ''/'' @ [d1, d2] @ ''/'' @ [y1, y2, y3, y4]"
  using assms
  by (simp add: js_replace_def date_regex_def iterate_atom)

lemma date_text_plain:
  assumes "list_all is_digit [d1, d2, m1, m2, y1, y2, y3, y4]"
  shows "date_text ([d1, d2] @ ''/'' @ [m1, m2] @ ''/'' @ [y1, y2, y3, y4]) =
         [m1, m2] @ ''/'' @ [d1, d2] @ ''/'' @ [y1, y2, y3, y4]"
  unfolding date_text_def time_absent [OF assms] by (rule day_month_swapped [OF assms])

lemma date_text_with_time:
  assumes "list_all is_digit [d1, d2, m1, m2, y1, y2, y3, y4, h1, h2, i1, i2, s1, s2]"
    and "is_space w"
  shows "date_text ([d1, d2] @ ''/'' @ [m1, m2] @ ''/'' @ [y1, y2, y3, y4] @ [w] @
                    [h1, h2] @ '':'' @ [i1, i2] @ '':'' @ [s1, s2]) =
         [m1, m2] @ ''/'' @ [d1, d2] @ ''/'' @ [y1, y2, y3, y4]"
proof -
  have "list_all is_digit [d1, d2, m1, m2, y1, y2, y3, y4]"
    using assms(1) by simp
  then show ?thesis
    unfolding date_text_def time_deleted [OF assms] by (rule day_month_swapped)
qed

section \<open>What a handler throws after an ok response\<close>

lemma is_Error_Inl [simp]: "is_Error (Inl a) = (\<exists>msg. a = Error msg)"
  by (cases a) simp_all

lemma is_Error_ebind:
  "\<not> is_Error m \<Longrightarrow> (\<And>v. \<not> is_Error (f v)) \<Longrightarrow> \<not> is_Error (ebind m f)"
  by (cases m) (simp_all add: ebind_def)

lemma is_Error_get_prop [simp]: "\<not> is_Error (get_prop v k)"
  by (cases v) simp_all

lemma is_Error_iter_of [simp]: "\<not> is_Error (iter_of v)"
  by (cases v) simp_all

lemma is_Error_result_json [simp]: "\<not> is_Error (result_json result)"
  by (simp add: result_json_def split: option.split)

lemma is_Error_replace_date [simp]: "\<not> is_Error (replace_date v)"
  by (cases v) (simp_all add: replace_date_def)

lemma is_Error_item_json [simp]: "\<not> is_Error (item_json item k)"
  by (simp add: item_json_def is_Error_ebind)

lemma is_Error_cond [simp]: "\<not> is_Error (cond tel item)"
  unfolding cond_def by (intro is_Error_ebind) simp_all

lemma is_Error_contato [simp]: "\<not> is_Error (contato item)"
  unfolding contato_def by (intro is_Error_ebind) simp_all

lemma is_Error_cobranca [simp]: "\<not> is_Error (cobranca item)"
  unfolding cobranca_def by (intro is_Error_ebind) (simp_all add: is_Error_ebind)

lemma is_Error_arrconds [simp]: "\<not> is_Error (arrconds tel rows acc)"
proof (induction rows arbitrary: acc)
  case Nil
  show ?case by simp
next
  case (Cons item rows)
  have "\<not> is_Error (cond tel item)" by simp
  with Cons show ?case by (cases "cond tel item") simp_all
qed

lemma is_Error_arrContatos [simp]: "\<not> is_Error (arrContatos rows acc)"
proof (induction rows arbitrary: acc)
  case Nil
  show ?case by simp
next
  case (Cons item rows)
  have "\<not> is_Error (contato item)" by simp
  with Cons show ?case by (cases "contato item") simp_all
qed

lemma is_Error_arrCobrancas [simp]: "\<not> is_Error (arrCobrancas rows acc)"
proof (induction rows arbitrary: acc)
  case Nil
  show ?case by simp
next
  case (Cons item rows)
  have "\<not> is_Error (cobranca item)" by simp
  with Cons show ?case by (cases "cobranca item") (simp_all split: option.split)
qed

lemma generate_token_ok:
  assumes "fetch e (token_request phone token) = Inr result" and "ok result"
  shows "\<not> is_Error (snd (generate_token e phone token))"
  using assms by (simp add: generate_token_run is_Error_ebind)

lemma get_user_data_ok:
  assumes "fetch e (unidades_request ''-1'' phone) = Inr result" and "ok result"
  shows "\<not> is_Error (snd (get_user_data e phone))"
  using assms by (simp add: get_user_data_run is_Error_ebind)

lemma get_payment_link_ok:
  assumes "fetch e (cobranca_request e id_condominio id_unidade) = Inr result" and "ok result"
  shows "\<not> is_Error (snd (get_payment_link e phone id_condominio id_unidade))"
  using assms by (simp add: get_payment_link_run is_Error_ebind)

lemma get_contacts_ok:
  assumes "fetch e (unidades_request id_condominio phone) = Inr result" and "ok result"
  shows "\<not> is_Error (snd (get_contacts e phone id_condominio))"
  using assms by (simp add: get_contacts_run is_Error_ebind)

lemma get_user_data_array:
  assumes "fetch e (unidades_request ''-1'' phone) = Inr result" and "ok result"
    and "json result = Some (JArr rows)" and "list_all non_null rows"
  shows "snd (get_user_data e phone) = Inr (JObj [(''data'', JArr (map (unit_row phone) rows))])"
  using assms by (simp add: get_user_data_run result_json_def arrconds_rows)

lemma get_payment_link_array:
  assumes "fetch e (cobranca_request e id_condominio id_unidade) = Inr result" and "ok result"
    and "json result = Some (JArr rows)" and "list_all billing_row_ok rows"
  shows "\<exists>arr. snd (get_payment_link e phone id_condominio id_unidade) =
             Inr (JObj [(''data'', JArr arr)]) \<and>
           list_all2 cobranca_rel (filter status_defined rows) arr"
proof -
  from arrCobrancas_rows [OF assms(4), of "[]"] obtain arr where
    "arrCobrancas rows [] = Inr arr" "list_all2 cobranca_rel (filter status_defined rows) arr"
    by auto
  with assms(1-3) show ?thesis
    by (simp add: get_payment_link_run result_json_def)
qed

section \<open>The rows of get\_user\_data\<close>

text \<open>
  C7, as the code has it. For an ok response whose body is a JSON array without a
  \<^verbatim>\<open>null\<close> row, get\_user\_data issues its one request and returns \<^verbatim>\<open>{data: arr}\<close> with
  one element per row, in the order of the response, each with the members the claim
  lists (a member the row lacks is \<^verbatim>\<open>undefined\<close>) and \<open>telefone\<close> the formatted \<open>phone\<close>
  argument.
\<close>

theorem get_user_data_rows:
  assumes "fetch e (unidades_request ''-1'' phone) = Inr result"
    and "ok result"
    and "json result = Some (JArr rows)"
    and "list_all non_null rows"
  shows "get_user_data e phone =
           ([unidades_request ''-1'' phone],
            Inr (JObj [(''data'', JArr (map (unit_row phone) rows))])) \<and>
         length (map (unit_row phone) rows) = length rows"
proof -
  have "fst (get_user_data e phone) = [unidades_request ''-1'' phone]"
    by (simp add: get_user_data_run)
  moreover have "snd (get_user_data e phone) =
      Inr (JObj [(''data'', JArr (map (unit_row phone) rows))])"
    using assms by (rule get_user_data_array)
  ultimately show ?thesis
    by (simp add: prod_eq_iff)
qed

theorem get_user_data_rows_witness:
  "get_user_data
     (answering
        \<lparr>ok = True, status = 200, statusText = ''OK'',
         json = Some (JArr [JObj [(''st_fantasia_cond'', JStr ''4D imobi''),
                                  (''cpf_proprietario'', JStr ''83919163753''),
                                  (''st_unidade_uni'', JStr ''005''),
                                  (''id_unidade_uni'', JStr ''452''),
                                  (''id_condominio_cond'', JStr ''3'')]])\<rparr> 2025 0)
     ''21974894586'' =
   ([unidades_request ''-1'' ''21974894586''],
    Inr (JObj [(''data'',
      JArr [JObj [(''nome_condominio'', JStr ''4D imobi''),
                  (''cpf_proprietario'', JStr ''83919163753''),
                  (''email_proprietario'', JUndefined),
                  (''unidade_apartamento'', JStr ''005''),
                  (''id_unidade'', JStr ''452''),
                  (''id_condominio'', JStr ''3''),
                  (''telefone'', JStr ''21974894586'')]])]))"
proof -
  have "formatPhoneNumber ''21974894586'' = ''21974894586''"
    by (rule format_eleven) simp_all
  then show ?thesis
    using get_user_data_rows
      [of "answering
             \<lparr>ok = True, status = 200, statusText = ''OK'',
              json = Some (JArr [JObj [(''st_fantasia_cond'', JStr ''4D imobi''),
                                       (''cpf_proprietario'', JStr ''83919163753''),
                                       (''st_unidade_uni'', JStr ''005''),
                                       (''id_unidade_uni'', JStr ''452''),
                                       (''id_condominio_cond'', JStr ''3'')]])\<rparr> 2025 0"
          "''21974894586''"
          "\<lparr>ok = True, status = 200, statusText = ''OK'',
            json = Some (JArr [JObj [(''st_fantasia_cond'', JStr ''4D imobi''),
                                     (''cpf_proprietario'', JStr ''83919163753''),
                                     (''st_unidade_uni'', JStr ''005''),
                                     (''id_unidade_uni'', JStr ''452''),
                                     (''id_condominio_cond'', JStr ''3'')]])\<rparr>"
          "[JObj [(''st_fantasia_cond'', JStr ''4D imobi''),
                  (''cpf_proprietario'', JStr ''83919163753''),
                  (''st_unidade_uni'', JStr ''005''),
                  (''id_unidade_uni'', JStr ''452''),
                  (''id_condominio_cond'', JStr ''3'')]]"]
    by (simp add: answering_def non_null_def unit_row_def read_prop_JObj)
qed

text \<open>
  The claim as stated, for every JSON array, fails on an array with a \<^verbatim>\<open>null\<close> row: the
  first property read of the loop body throws.
\<close>

theorem get_user_data_null_row:
  "snd (get_user_data
          (answering \<lparr>ok = True, status = 200, statusText = ''OK'', json = Some (JArr [JNull])\<rparr>
             2025 0)
          ''21974894586'') = Inl TypeError"
  by (simp add: get_user_data_run answering_def result_json_def cond_def)

section \<open>The rows of get\_payment\_link\<close>

text \<open>
  C3, as the code has it. For an ok response whose body is a JSON array of rows that each
  have a \<^verbatim>\<open>json\<close> member other than \<^verbatim>\<open>null\<close>, with string dates where \<^verbatim>\<open>json.status\<close> is
  defined, get\_payment\_link returns \<^verbatim>\<open>{data: arr}\<close> where \<open>arr\<close> has one row for each input
  row with a defined \<^verbatim>\<open>json.status\<close>, in input order, related to it member by member as
  \<open>cobranca_rel\<close> says: the two dates through the two replacements of the code, \<open>valor\<close>,
  \<open>total\<close>, \<open>pix\<close>, \<open>link\<close> copied, \<open>juros\<close> and \<open>multa\<close> there exactly when the input member is
  not the empty string, \<open>status\<close> there exactly when \<^verbatim>\<open>fl_status_recb\<close> is not the empty
  string, and then \<open>Pago\<close> for \<open>3\<close> and \<open>Pendente\<close> otherwise. The two replacements turn
  \<open>DD/MM/YYYY\<close>, alone or followed by a white space and \<open>hh:mm:ss\<close>, into \<open>MM/DD/YYYY\<close>.
\<close>

theorem get_payment_link_rows:
  assumes "fetch e (cobranca_request e id_condominio id_unidade) = Inr result"
    and "ok result"
    and "json result = Some (JArr rows)"
    and "list_all billing_row_ok rows"
  shows "(\<exists>arr. get_payment_link e phone id_condominio id_unidade =
                 ([cobranca_request e id_condominio id_unidade],
                  Inr (JObj [(''data'', JArr arr)])) \<and>
               list_all2 cobranca_rel (filter status_defined rows) arr) \<and>
         (list_all is_digit [d1, d2, m1, m2, y1, y2, y3, y4] \<longrightarrow>
            date_text ([d1, d2] @ ''/'' @ [m1, m2] @ ''/'' @ [y1, y2, y3, y4]) =
            [m1, m2] @ ''/'' @ [d1, d2] @ ''/'' @ [y1, y2, y3, y4]) \<and>
         (list_all is_digit [d1, d2, m1, m2, y1, y2, y3, y4, h1, h2, i1, i2, s1, s2] \<and>
          is_space w \<longrightarrow>
            date_text ([d1, d2] @ ''/'' @ [m1, m2] @ ''/'' @ [y1, y2, y3, y4] @ [w] @
                       [h1, h2] @ '':'' @ [i1, i2] @ '':'' @ [s1, s2]) =
            [m1, m2] @ ''/'' @ [d1, d2] @ ''/'' @ [y1, y2, y3, y4])"
proof (intro conjI impI)
  from get_payment_link_array [OF assms] obtain arr where
    arr: "snd (get_payment_link e phone id_condominio id_unidade) =
        Inr (JObj [(''data'', JArr arr)])"
      "list_all2 cobranca_rel (filter status_defined rows) arr"
    by blast
  have "fst (get_payment_link e phone id_condominio id_unidade) =
      [cobranca_request e id_condominio id_unidade]"
    by (simp add: get_payment_link_run)
  with arr(1) have "get_payment_link e phone id_condominio id_unidade =
      ([cobranca_request e id_condominio id_unidade], Inr (JObj [(''data'', JArr arr)]))"
    by (simp add: prod_eq_iff)
  with arr(2) show "\<exists>arr. get_payment_link e phone id_condominio id_unidade =
        ([cobranca_request e id_condominio id_unidade], Inr (JObj [(''data'', JArr arr)])) \<and>
      list_all2 cobranca_rel (filter status_defined rows) arr"
    by blast
next
  assume "list_all is_digit [d1, d2, m1, m2, y1, y2, y3, y4]"
  then show "date_text ([d1, d2] @ ''/'' @ [m1, m2] @ ''/'' @ [y1, y2, y3, y4]) =
      [m1, m2] @ ''/'' @ [d1, d2] @ ''/'' @ [y1, y2, y3, y4]"
    by (rule date_text_plain)
next
  assume "list_all is_digit [d1, d2, m1, m2, y1, y2, y3, y4, h1, h2, i1, i2, s1, s2] \<and>
    is_space w"
  then show "date_text ([d1, d2] @ ''/'' @ [m1, m2] @ ''/'' @ [y1, y2, y3, y4] @ [w] @
        [h1, h2] @ '':'' @ [i1, i2] @ '':'' @ [s1, s2]) =
      [m1, m2] @ ''/'' @ [d1, d2] @ ''/'' @ [y1, y2, y3, y4]"
    using date_text_with_time by blast
qed

theorem get_payment_link_rows_witness:
  "(\<exists>arr. get_payment_link
            (answering
               \<lparr>ok = True, status = 200, statusText = ''OK'',
                json = Some (JArr
                  [JObj [(''json'', JObj [(''status'', JStr ''0''),
                                          (''dt_geracao_recb'', JStr ''05/11/2024 10:20:30''),
                                          (''dt_vencimento_recb'', JStr ''15/11/2024''),
                                          (''vl_emitido_recb'', JStr ''350.00''),
                                          (''nm_txjuros_cond'', JStr ''''),
                                          (''nm_txmulta_cond'', JStr ''2''),
                                          (''fl_status_recb'', JStr ''3'')])],
                   JObj [(''json'', JObj [(''id'', JStr ''7'')])]])\<rparr> 2025 0)
            ''21974894586'' ''3'' ''452'' =
          ([cobranca_request
              (answering
                 \<lparr>ok = True, status = 200, statusText = ''OK'',
                  json = Some (JArr
                    [JObj [(''json'', JObj [(''status'', JStr ''0''),
                                            (''dt_geracao_recb'', JStr ''05/11/2024 10:20:30''),
                                            (''dt_vencimento_recb'', JStr ''15/11/2024''),
                                            (''vl_emitido_recb'', JStr ''350.00''),
                                            (''nm_txjuros_cond'', JStr ''''),
                                            (''nm_txmulta_cond'', JStr ''2''),
                                            (''fl_status_recb'', JStr ''3'')])],
                     JObj [(''json'', JObj [(''id'', JStr ''7'')])]])\<rparr> 2025 0)
              ''3'' ''452''],
           Inr (JObj [(''data'', JArr arr)])) \<and>
          list_all2 cobranca_rel
            [JObj [(''json'', JObj [(''status'', JStr ''0''),
                                    (''dt_geracao_recb'', JStr ''05/11/2024 10:20:30''),
                                    (''dt_vencimento_recb'', JStr ''15/11/2024''),
                                    (''vl_emitido_recb'', JStr ''350.00''),
                                    (''nm_txjuros_cond'', JStr ''''),
                                    (''nm_txmulta_cond'', JStr ''2''),
                                    (''fl_status_recb'', JStr ''3'')])]]
            arr) \<and>
   date_text ''05/11/2024 10:20:30'' = ''11/05/2024'' \<and>
   date_text ''15/11/2024'' = ''11/15/2024''"
  using get_payment_link_rows
    [where e = "answering
               \<lparr>ok = True, status = 200, statusText = ''OK'',
                json = Some (JArr
                  [JObj [(''json'', JObj [(''status'', JStr ''0''),
                                          (''dt_geracao_recb'', JStr ''05/11/2024 10:20:30''),
                                          (''dt_vencimento_recb'', JStr ''15/11/2024''),
                                          (''vl_emitido_recb'', JStr ''350.00''),
                                          (''nm_txjuros_cond'', JStr ''''),
                                          (''nm_txmulta_cond'', JStr ''2''),
                                          (''fl_status_recb'', JStr ''3'')])],
                   JObj [(''json'', JObj [(''id'', JStr ''7'')])]])\<rparr> 2025 0"
       and id_condominio = "''3''" and id_unidade = "''452''" and phone = "''21974894586''"
       and result = "\<lparr>ok = True, status = 200, statusText = ''OK'',
                json = Some (JArr
                  [JObj [(''json'', JObj [(''status'', JStr ''0''),
                                          (''dt_geracao_recb'', JStr ''05/11/2024 10:20:30''),
                                          (''dt_vencimento_recb'', JStr ''15/11/2024''),
                                          (''vl_emitido_recb'', JStr ''350.00''),
                                          (''nm_txjuros_cond'', JStr ''''),
                                          (''nm_txmulta_cond'', JStr ''2''),
                                          (''fl_status_recb'', JStr ''3'')])],
                   JObj [(''json'', JObj [(''id'', JStr ''7'')])]])\<rparr>"
       and rows = "[JObj [(''json'', JObj [(''status'', JStr ''0''),
                                          (''dt_geracao_recb'', JStr ''05/11/2024 10:20:30''),
                                          (''dt_vencimento_recb'', JStr ''15/11/2024''),
                                          (''vl_emitido_recb'', JStr ''350.00''),
                                          (''nm_txjuros_cond'', JStr ''''),
                                          (''nm_txmulta_cond'', JStr ''2''),
                                          (''fl_status_recb'', JStr ''3'')])],
                   JObj [(''json'', JObj [(''id'', JStr ''7'')])]]"
       and ?d1.0 = "CHR ''0''" and ?d2.0 = "CHR ''5''" and ?m1.0 = "CHR ''1''" and ?m2.0 = "CHR ''1''"
       and ?y1.0 = "CHR ''2''" and ?y2.0 = "CHR ''0''" and ?y3.0 = "CHR ''2''" and ?y4.0 = "CHR ''4''"
       and ?h1.0 = "CHR ''1''" and ?h2.0 = "CHR ''0''" and ?i1.0 = "CHR ''2''" and ?i2.0 = "CHR ''0''"
       and ?s1.0 = "CHR ''3''" and ?s2.0 = "CHR ''0''" and w = "CHR '' ''"]
    get_payment_link_rows
    [where e = "answering
               \<lparr>ok = True, status = 200, statusText = ''OK'', json = Some (JArr [])\<rparr> 2025 0"
       and id_condominio = "''3''" and id_unidade = "''452''" and phone = "''21974894586''"
       and result = "\<lparr>ok = True, status = 200, statusText = ''OK'', json = Some (JArr [])\<rparr>"
       and rows = "[]"
       and ?d1.0 = "CHR ''1''" and ?d2.0 = "CHR ''5''" and ?m1.0 = "CHR ''1''" and ?m2.0 = "CHR ''1''"
       and ?y1.0 = "CHR ''2''" and ?y2.0 = "CHR ''0''" and ?y3.0 = "CHR ''2''" and ?y4.0 = "CHR ''4''"]
  by (simp add: answering_def billing_row_ok_def non_null_def status_defined_def read_prop_JObj
      is_digit_def is_space_def)

text \<open>
  The claim as stated, for every JSON array, fails on a row without a \<^verbatim>\<open>json\<close> member:
  reading \<^verbatim>\<open>item.json.status\<close> throws, where the claim would leave the row out.
\<close>

theorem get_payment_link_row_without_json:
  "snd (get_payment_link
          (answering
             \<lparr>ok = True, status = 200, statusText = ''OK'',
              json = Some (JArr [JObj [(''id_recebimento_recb'', JStr ''1'')]])\<rparr> 2025 0)
          ''21974894586'' ''3'' ''452'') = Inl TypeError"
  by (simp add: get_payment_link_run answering_def result_json_def cobranca_def item_json_def)

section \<open>Status errors\<close>

lemma request_error_text:
  "request_error result =
     Error (''Erro na requisi'' @ [CHR 0xE7, CHR 0xE3] @ ''o: '' @ show_nat (status result) @
            '' '' @ statusText result)"
  by (simp add: request_error_def)

text \<open>
  C2, as the code has it. Each of the four handlers throws the \<^verbatim>\<open>Error\<close> it constructs,
  whose message holds the status and the status text of the response, exactly when the
  response is not ok. After an ok response generate\_token resolves to the empty string
  when the body is JSON, get\_user\_data resolves to a \<^verbatim>\<open>{data: arr}\<close> object when the body
  is an array without \<^verbatim>\<open>null\<close> rows, and get\_payment\_link does when the body is an array
  of well-shaped billing rows.
\<close>

theorem status_error_iff_not_ok:
  "(fetch e (token_request phone token) = Inr result \<longrightarrow>
      (is_Error (snd (generate_token e phone token)) \<longleftrightarrow> \<not> ok result) \<and>
      (\<not> ok result \<longrightarrow>
         snd (generate_token e phone token) =
           Inl (Error (''Erro ao enviar OTP: '' @ show_nat (status result) @ '' '' @
                       statusText result))) \<and>
      (ok result \<and> json result \<noteq> None \<longrightarrow>
         snd (generate_token e phone token) = Inr (JStr ''''))) \<and>
   (fetch e (unidades_request ''-1'' phone) = Inr result \<longrightarrow>
      (is_Error (snd (get_user_data e phone)) \<longleftrightarrow> \<not> ok result) \<and>
      (\<not> ok result \<longrightarrow>
         snd (get_user_data e phone) =
           Inl (Error (''Erro na requisi'' @ [CHR 0xE7, CHR 0xE3] @ ''o: '' @
                       show_nat (status result) @ '' '' @ statusText result))) \<and>
      (ok result \<and> (\<exists>rows. json result = Some (JArr rows) \<and> list_all non_null rows) \<longrightarrow>
         (\<exists>arr. snd (get_user_data e phone) = Inr (JObj [(''data'', JArr arr)])))) \<and>
   (fetch e (cobranca_request e id_condominio id_unidade) = Inr result \<longrightarrow>
      (is_Error (snd (get_payment_link e phone id_condominio id_unidade)) \<longleftrightarrow> \<not> ok result) \<and>
      (\<not> ok result \<longrightarrow>
         snd (get_payment_link e phone id_condominio id_unidade) =
           Inl (Error (''Erro na requisi'' @ [CHR 0xE7, CHR 0xE3] @ ''o: '' @
                       show_nat (status result) @ '' '' @ statusText result))) \<and>
      (ok result \<and> (\<exists>rows. json result = Some (JArr rows) \<and> list_all billing_row_ok rows) \<longrightarrow>
         (\<exists>arr. snd (get_payment_link e phone id_condominio id_unidade) =
                 Inr (JObj [(''data'', JArr arr)])))) \<and>
   (fetch e (unidades_request id_condominio phone) = Inr result \<longrightarrow>
      (is_Error (snd (get_contacts e phone id_condominio)) \<longleftrightarrow> \<not> ok result) \<and>
      (\<not> ok result \<longrightarrow>
         snd (get_contacts e phone id_condominio) =
           Inl (Error (''Erro na requisi'' @ [CHR 0xE7, CHR 0xE3] @ ''o: '' @
                       show_nat (status result) @ '' '' @ statusText result))))"
proof (intro conjI)
  show "fetch e (token_request phone token) = Inr result \<longrightarrow>
      (is_Error (snd (generate_token e phone token)) \<longleftrightarrow> \<not> ok result) \<and>
      (\<not> ok result \<longrightarrow>
         snd (generate_token e phone token) =
           Inl (Error (''Erro ao enviar OTP: '' @ show_nat (status result) @ '' '' @
                       statusText result))) \<and>
      (ok result \<and> json result \<noteq> None \<longrightarrow>
         snd (generate_token e phone token) = Inr (JStr ''''))"
  proof (intro impI conjI)
    assume f: "fetch e (token_request phone token) = Inr result"
    show "is_Error (snd (generate_token e phone token)) \<longleftrightarrow> \<not> ok result"
      using f generate_token_ok [OF f] by (cases "ok result") (simp_all add: generate_token_run)
    show "snd (generate_token e phone token) =
        Inl (Error (''Erro ao enviar OTP: '' @ show_nat (status result) @ '' '' @
                    statusText result))" if "\<not> ok result"
      using f that by (simp add: generate_token_run)
    show "snd (generate_token e phone token) = Inr (JStr '''')"
      if "ok result \<and> json result \<noteq> None"
      using f that by (auto simp: generate_token_run result_json_def)
  qed
next
  show "fetch e (unidades_request ''-1'' phone) = Inr result \<longrightarrow>
      (is_Error (snd (get_user_data e phone)) \<longleftrightarrow> \<not> ok result) \<and>
      (\<not> ok result \<longrightarrow>
         snd (get_user_data e phone) =
           Inl (Error (''Erro na requisi'' @ [CHR 0xE7, CHR 0xE3] @ ''o: '' @
                       show_nat (status result) @ '' '' @ statusText result))) \<and>
      (ok result \<and> (\<exists>rows. json result = Some (JArr rows) \<and> list_all non_null rows) \<longrightarrow>
         (\<exists>arr. snd (get_user_data e phone) = Inr (JObj [(''data'', JArr arr)])))"
  proof (intro impI conjI)
    assume f: "fetch e (unidades_request ''-1'' phone) = Inr result"
    show "is_Error (snd (get_user_data e phone)) \<longleftrightarrow> \<not> ok result"
      using f get_user_data_ok [OF f]
      by (cases "ok result") (simp_all add: get_user_data_run request_error_def)
    show "snd (get_user_data e phone) =
        Inl (Error (''Erro na requisi'' @ [CHR 0xE7, CHR 0xE3] @ ''o: '' @
                    show_nat (status result) @ '' '' @ statusText result))" if "\<not> ok result"
      using f that by (simp add: get_user_data_run request_error_def)
    show "\<exists>arr. snd (get_user_data e phone) = Inr (JObj [(''data'', JArr arr)])"
      if "ok result \<and> (\<exists>rows. json result = Some (JArr rows) \<and> list_all non_null rows)"
      using that get_user_data_array [OF f] by blast
  qed
next
  show "fetch e (cobranca_request e id_condominio id_unidade) = Inr result \<longrightarrow>
      (is_Error (snd (get_payment_link e phone id_condominio id_unidade)) \<longleftrightarrow> \<not> ok result) \<and>
      (\<not> ok result \<longrightarrow>
         snd (get_payment_link e phone id_condominio id_unidade) =
           Inl (Error (''Erro na requisi'' @ [CHR 0xE7, CHR 0xE3] @ ''o: '' @
                       show_nat (status result) @ '' '' @ statusText result))) \<and>
      (ok result \<and> (\<exists>rows. json result = Some (JArr rows) \<and> list_all billing_row_ok rows) \<longrightarrow>
         (\<exists>arr. snd (get_payment_link e phone id_condominio id_unidade) =
                 Inr (JObj [(''data'', JArr arr)])))"
  proof (intro impI conjI)
    assume f: "fetch e (cobranca_request e id_condominio id_unidade) = Inr result"
    show "is_Error (snd (get_payment_link e phone id_condominio id_unidade)) \<longleftrightarrow> \<not> ok result"
      using f get_payment_link_ok [OF f, of phone]
      by (cases "ok result") (simp_all add: get_payment_link_run request_error_def)
    show "snd (get_payment_link e phone id_condominio id_unidade) =
        Inl (Error (''Erro na requisi'' @ [CHR 0xE7, CHR 0xE3] @ ''o: '' @
                    show_nat (status result) @ '' '' @ statusText result))" if "\<not> ok result"
      using f that by (simp add: get_payment_link_run request_error_def)
    show "\<exists>arr. snd (get_payment_link e phone id_condominio id_unidade) =
        Inr (JObj [(''data'', JArr arr)])"
      if "ok result \<and> (\<exists>rows. json result = Some (JArr rows) \<and> list_all billing_row_ok rows)"
      using that get_payment_link_array [OF f, of _ phone] by blast
  qed
next
  show "fetch e (unidades_request id_condominio phone) = Inr result \<longrightarrow>
      (is_Error (snd (get_contacts e phone id_condominio)) \<longleftrightarrow> \<not> ok result) \<and>
      (\<not> ok result \<longrightarrow>
         snd (get_contacts e phone id_condominio) =
           Inl (Error (''Erro na requisi'' @ [CHR 0xE7, CHR 0xE3] @ ''o: '' @
                       show_nat (status result) @ '' '' @ statusText result)))"
  proof (intro impI conjI)
    assume f: "fetch e (unidades_request id_condominio phone) = Inr result"
    show "is_Error (snd (get_contacts e phone id_condominio)) \<longleftrightarrow> \<not> ok result"
      using f get_contacts_ok [OF f]
      by (cases "ok result") (simp_all add: get_contacts_run request_error_def)
    show "snd (get_contacts e phone id_condominio) =
        Inl (Error (''Erro na requisi'' @ [CHR 0xE7, CHR 0xE3] @ ''o: '' @
                    show_nat (status result) @ '' '' @ statusText result))" if "\<not> ok result"
      using f that by (simp add: get_contacts_run request_error_def)
  qed
qed

theorem status_error_iff_not_ok_witness:
  "snd (generate_token
          (answering \<lparr>ok = False, status = 500, statusText = ''Server Error'', json = None\<rparr> 2025 0)
          ''21974894586'' ''123456'') =
     Inl (Error ''Erro ao enviar OTP: 500 Server Error'') \<and>
   snd (generate_token
          (answering \<lparr>ok = True, status = 200, statusText = ''OK'', json = Some (JObj [])\<rparr> 2025 0)
          ''21974894586'' ''123456'') = Inr (JStr '''') \<and>
   snd (get_user_data
          (answering \<lparr>ok = False, status = 404, statusText = ''Not Found'', json = None\<rparr> 2025 0)
          ''21974894586'') =
     Inl (Error (''Erro na requisi'' @ [CHR 0xE7, CHR 0xE3] @ ''o: 404 Not Found'')) \<and>
   (\<exists>arr. snd (get_user_data
                 (answering
                    \<lparr>ok = True, status = 200, statusText = ''OK'',
                     json = Some (JArr [JObj [(''st_fantasia_cond'', JStr ''4D imobi'')]])\<rparr> 2025 0)
                 ''21974894586'') = Inr (JObj [(''data'', JArr arr)])) \<and>
   snd (get_payment_link
          (answering \<lparr>ok = False, status = 404, statusText = ''Not Found'', json = None\<rparr> 2025 0)
          ''21974894586'' ''3'' ''452'') =
     Inl (Error (''Erro na requisi'' @ [CHR 0xE7, CHR 0xE3] @ ''o: 404 Not Found'')) \<and>
   (\<exists>arr. snd (get_payment_link
                 (answering
                    \<lparr>ok = True, status = 200, statusText = ''OK'',
                     json = Some (JArr [JObj [(''json'', JObj [(''id'', JStr ''7'')])]])\<rparr> 2025 0)
                 ''21974894586'' ''3'' ''452'') = Inr (JObj [(''data'', JArr arr)])) \<and>
   snd (get_contacts
          (answering \<lparr>ok = False, status = 404, statusText = ''Not Found'', json = None\<rparr> 2025 0)
          ''21974894586'' ''3'') =
     Inl (Error (''Erro na requisi'' @ [CHR 0xE7, CHR 0xE3] @ ''o: 404 Not Found''))"
proof -
  have s: "show_nat 404 = ''404''" "show_nat 500 = ''500''"
    by code_simp+
  note bad = status_error_iff_not_ok
      [where result = "\<lparr>ok = False, status = 404, statusText = ''Not Found'', json = None\<rparr>"
         and e = "answering \<lparr>ok = False, status = 404, statusText = ''Not Found'', json = None\<rparr> 2025 0"
         and phone = "''21974894586''" and token = "''123456''" and id_condominio = "''3''"
         and id_unidade = "''452''"]
  note bad_token = status_error_iff_not_ok
      [where result = "\<lparr>ok = False, status = 500, statusText = ''Server Error'', json = None\<rparr>"
         and e = "answering \<lparr>ok = False, status = 500, statusText = ''Server Error'', json = None\<rparr> 2025 0"
         and phone = "''21974894586''" and token = "''123456''" and id_condominio = "''3''"
         and id_unidade = "''452''"]
  note good_token = status_error_iff_not_ok
      [where result = "\<lparr>ok = True, status = 200, statusText = ''OK'', json = Some (JObj [])\<rparr>"
         and e = "answering \<lparr>ok = True, status = 200, statusText = ''OK'', json = Some (JObj [])\<rparr> 2025 0"
         and phone = "''21974894586''" and token = "''123456''" and id_condominio = "''3''"
         and id_unidade = "''452''"]
  note good_units = status_error_iff_not_ok
      [where result = "\<lparr>ok = True, status = 200, statusText = ''OK'',
                        json = Some (JArr [JObj [(''st_fantasia_cond'', JStr ''4D imobi'')]])\<rparr>"
         and e = "answering
                    \<lparr>ok = True, status = 200, statusText = ''OK'',
                     json = Some (JArr [JObj [(''st_fantasia_cond'', JStr ''4D imobi'')]])\<rparr> 2025 0"
         and phone = "''21974894586''" and token = "''123456''" and id_condominio = "''3''"
         and id_unidade = "''452''"]
  note good_billing = status_error_iff_not_ok
      [where result = "\<lparr>ok = True, status = 200, statusText = ''OK'',
                        json = Some (JArr [JObj [(''json'', JObj [(''id'', JStr ''7'')])]])\<rparr>"
         and e = "answering
                    \<lparr>ok = True, status = 200, statusText = ''OK'',
                     json = Some (JArr [JObj [(''json'', JObj [(''id'', JStr ''7'')])]])\<rparr> 2025 0"
         and phone = "''21974894586''" and token = "''123456''" and id_condominio = "''3''"
         and id_unidade = "''452''"]
  have 1: "snd (generate_token
          (answering \<lparr>ok = False, status = 500, statusText = ''Server Error'', json = None\<rparr> 2025 0)
          ''21974894586'' ''123456'') =
     Inl (Error ''Erro ao enviar OTP: 500 Server Error'')"
    using bad_token by (simp add: answering_def s)
  have 2: "snd (generate_token
          (answering \<lparr>ok = True, status = 200, statusText = ''OK'', json = Some (JObj [])\<rparr> 2025 0)
          ''21974894586'' ''123456'') = Inr (JStr '''')"
    using good_token by (simp add: answering_def)
  have 3: "snd (get_user_data
          (answering \<lparr>ok = False, status = 404, statusText = ''Not Found'', json = None\<rparr> 2025 0)
          ''21974894586'') =
     Inl (Error (''Erro na requisi'' @ [CHR 0xE7, CHR 0xE3] @ ''o: 404 Not Found''))"
    and 5: "snd (get_payment_link
          (answering \<lparr>ok = False, status = 404, statusText = ''Not Found'', json = None\<rparr> 2025 0)
          ''21974894586'' ''3'' ''452'') =
     Inl (Error (''Erro na requisi'' @ [CHR 0xE7, CHR 0xE3] @ ''o: 404 Not Found''))"
    and 7: "snd (get_contacts
          (answering \<lparr>ok = False, status = 404, statusText = ''Not Found'', json = None\<rparr> 2025 0)
          ''21974894586'' ''3'') =
     Inl (Error (''Erro na requisi'' @ [CHR 0xE7, CHR 0xE3] @ ''o: 404 Not Found''))"
    using bad by (simp_all add: answering_def s)
  have 4: "\<exists>arr. snd (get_user_data
                 (answering
                    \<lparr>ok = True, status = 200, statusText = ''OK'',
                     json = Some (JArr [JObj [(''st_fantasia_cond'', JStr ''4D imobi'')]])\<rparr> 2025 0)
                 ''21974894586'') = Inr (JObj [(''data'', JArr arr)])"
    using good_units by (simp add: answering_def non_null_def)
  have 6: "\<exists>arr. snd (get_payment_link
                 (answering
                    \<lparr>ok = True, status = 200, statusText = ''OK'',
                     json = Some (JArr [JObj [(''json'', JObj [(''id'', JStr ''7'')])]])\<rparr> 2025 0)
                 ''21974894586'' ''3'' ''452'') = Inr (JObj [(''data'', JArr arr)])"
    using good_billing
    by (simp add: answering_def billing_row_ok_def non_null_def status_defined_def read_prop_JObj)
  from 1 2 3 4 5 6 7 show ?thesis
    by (intro conjI)
qed

text \<open>
  The claim as stated fails after an ok response whose body is JSON of another shape:
  an object where get\_user\_data iterates an array makes the handler throw.
\<close>

theorem get_user_data_ok_response_throws:
  "ok \<lparr>ok = True, status = 200, statusText = ''OK'',
       json = Some (JObj [(''status'', JStr ''500''), (''msg'', JStr ''Acesso negado'')])\<rparr> \<and>
   snd (get_user_data
          (answering
             \<lparr>ok = True, status = 200, statusText = ''OK'',
              json = Some (JObj [(''status'', JStr ''500''), (''msg'', JStr ''Acesso negado'')])\<rparr>
             2025 0)
          ''21974894586'') = Inl TypeError"
  by (simp add: get_user_data_run answering_def result_json_def)

end
